theory Spec2Isabelle
  imports Main "HOL-Library.Word" "HOL-Library.Signed_Division" "HOL-Library.AList"
begin

unbundle bit_operations_syntax

section \<open>cachex: envelope, two-tier wrapper and facade\<close>

text \<open>
  A shallow embedding of package \<open>cachex\<close> (entry.go, codec.go, wrapper.go, impl.go,
  builder.go). Go's \<open>int64\<close>, \<open>time.Duration\<close> and \<open>uint64\<close> are \<open>64 word\<close> (signed
  readings through \<open>sint\<close>, \<open><s\<close>, \<open>\<le>s\<close>), a byte is \<open>8 word\<close>, a byte slice is a
  list (a nil slice and an empty slice both have length 0 and are the same list), a
  nil-able pointer is an \<open>option\<close>, a Go \<open>error\<close> is a message, and a panic is an
  outcome of its own.
\<close>

subsection \<open>Basic types\<close>

type_synonym byte = "8 word"
type_synonym int64 = "64 word"

datatype error = Err string

datatype panic = NilPointer | InvalidLevel | UnmarshalPanic error

datatype 'a outcome = Ret 'a | Panics panic

subsection \<open>Codec (codec.go)\<close>

text \<open>
  \<open>Codec[V]\<close> is an interface with \<open>Marshal(v *V) ([]byte, error)\<close> and
  \<open>Unmarshal(data []byte) (*V, error)\<close>; an implementation is a pair of functions.
\<close>

record 'v codec =
  Marshal :: "'v option \<Rightarrow> error + byte list"
  Unmarshal :: "byte list \<Rightarrow> error + 'v option"

text \<open>\<open>rawString\<close>: the raw-string passthrough codec, with a string as its bytes.\<close>

definition rawString :: "byte list codec" where
  "rawString = \<lparr>
     Marshal = (\<lambda>v. case v of None \<Rightarrow> Inl (Err ''value is nil'') | Some s \<Rightarrow> Inr s),
     Unmarshal = (\<lambda>data. Inr (Some data)) \<rparr>"

subsection \<open>Envelope (entry.go)\<close>

definition bytesCreateAtSize :: nat where "bytesCreateAtSize = 8"
definition bytesTTLSize :: nat where "bytesTTLSize = 8"
definition bytesIsNilSize :: nat where "bytesIsNilSize = 1"
definition bytesHeaderSize :: nat where
  "bytesHeaderSize = bytesCreateAtSize + bytesTTLSize + bytesIsNilSize"

record 'v entry =
  createAt :: int64
  ttl :: int64
  valBytes :: "byte list"
  val :: "'v option"
  isNil :: byte

text \<open>
  \<open>binary.LittleEndian.PutUint64\<close>: byte \<open>i\<close> of the buffer is \<open>byte(v >> (8 * i))\<close>.
\<close>

definition PutUint64 :: "64 word \<Rightarrow> byte list" where
  "PutUint64 v =
     [ucast v, ucast (drop_bit 8 v), ucast (drop_bit 16 v), ucast (drop_bit 24 v),
      ucast (drop_bit 32 v), ucast (drop_bit 40 v), ucast (drop_bit 48 v),
      ucast (drop_bit 56 v)]"

text \<open>
  \<open>binary.LittleEndian.Uint64\<close>:
  \<open>uint64(b[0]) | uint64(b[1])<<8 | ... | uint64(b[7])<<56\<close>. It is only called on
  slices of exactly 8 bytes (after the length check of \<open>deserializeEntry\<close>).
\<close>

definition Uint64 :: "byte list \<Rightarrow> 64 word" where
  "Uint64 b =
     ucast (b ! 0) OR push_bit 8 (ucast (b ! 1)) OR push_bit 16 (ucast (b ! 2))
       OR push_bit 24 (ucast (b ! 3)) OR push_bit 32 (ucast (b ! 4))
       OR push_bit 40 (ucast (b ! 5)) OR push_bit 48 (ucast (b ! 6))
       OR push_bit 56 (ucast (b ! 7))"

text \<open>Go slicing \<open>b[lo:hi]\<close> and \<open>b[lo:]\<close> within bounds.\<close>

definition slice :: "'a list \<Rightarrow> nat \<Rightarrow> nat \<Rightarrow> 'a list" where
  "slice b lo hi = take (hi - lo) (drop lo b)"

text \<open>
  \<open>Serialize\<close> marshals the value once, when no payload bytes are cached, and stores
  the bytes in the envelope; it returns the frame and the updated envelope.
\<close>

definition Serialize :: "'v codec \<Rightarrow> 'v entry \<Rightarrow> error + (byte list \<times> 'v entry)" where
  "Serialize c e =
     (let r = (if length (valBytes e) = 0 \<and> val e \<noteq> None
               then (case Marshal c (val e) of
                       Inl (Err m) \<Rightarrow> Inl (Err (''cachex: failed to marshal value: '' @ m))
                     | Inr bs \<Rightarrow> Inr (e\<lparr>valBytes := bs\<rparr>))
               else Inr e)
      in case r of
           Inl err \<Rightarrow> Inl err
         | Inr e' \<Rightarrow>
             Inr (PutUint64 (createAt e') @ PutUint64 (ttl e') @ [isNil e'] @ valBytes e', e'))"

text \<open>\<open>Duration.Milliseconds\<close>: \<open>int64(d) / 1e6\<close>, Go's division truncating to zero.\<close>

definition Milliseconds :: "int64 \<Rightarrow> int64" where
  "Milliseconds d = word_of_int (sint d sdiv 1000000)"

text \<open>
  \<open>IsExpired\<close> reads the clock (\<open>time.Now().UnixMilli()\<close>); the reading is the
  argument \<open>now\<close>. The sum \<open>e.createAt + e.ttl.Milliseconds()\<close> is an \<open>int64\<close> sum.
\<close>

definition IsExpired :: "'v entry \<Rightarrow> int64 \<Rightarrow> bool" where
  "IsExpired e now =
     (if ttl e \<le>s 0 then False
      else if createAt e + Milliseconds (ttl e) <s now then True
      else False)"

definition IsNil :: "'v entry \<Rightarrow> bool" where
  "IsNil e = (isNil e = 1)"

text \<open>
  \<open>Value\<close> has a pointer receiver that may be nil. A failing \<open>Unmarshal\<close> panics.
  The result is the pair \<open>(*V, error)\<close>.
\<close>

definition Value :: "'v codec \<Rightarrow> 'v entry option \<Rightarrow> ('v option \<times> error option) outcome" where
  "Value c eo =
     (case eo of
        None \<Rightarrow> Ret (None, None)
      | Some e \<Rightarrow>
          if IsNil e then Ret (None, None)
          else (case val e of
                  Some v \<Rightarrow> Ret (Some v, None)
                | None \<Rightarrow>
                    (case Unmarshal c (valBytes e) of
                       Inl (Err m) \<Rightarrow>
                         Panics (UnmarshalPanic (Err (''cachex: failed to unmarshal value: '' @ m)))
                     | Inr v \<Rightarrow> Ret (v, None))))"

definition CreateAt :: "'v entry \<Rightarrow> int64" where
  "CreateAt e = createAt e"

definition newEntry :: "'v option \<Rightarrow> int64 \<Rightarrow> int64 \<Rightarrow> 'v entry" where
  "newEntry v t now =
     (if v = None
      then \<lparr>createAt = now, ttl = t, valBytes = [], val = None, isNil = 1\<rparr>
      else \<lparr>createAt = now, ttl = t, valBytes = [], val = v, isNil = 0\<rparr>)"

definition deserializeEntry :: "byte list \<Rightarrow> 'v entry option" where
  "deserializeEntry bytes =
     (if length bytes < 17 then None
      else Some \<lparr>createAt = Uint64 (slice bytes 0 bytesCreateAtSize),
                 ttl = Uint64 (slice bytes bytesCreateAtSize (bytesCreateAtSize + bytesTTLSize)),
                 valBytes = drop bytesHeaderSize bytes,
                 val = None,
                 isNil = bytes ! (bytesCreateAtSize + bytesTTLSize)\<rparr>)"

subsection \<open>Go maps\<close>

text \<open>
  A Go \<open>map[string]T\<close> is an association list with distinct keys: \<open>m[k] = v\<close> is
  \<open>AList.update\<close>, \<open>len(m)\<close> is the length, and \<open>range\<close> visits the pairs in list
  order (Go leaves the order open). A lookup of a missing key gives the zero value,
  which for the pointer and slice maps below is nil.
\<close>

type_synonym 'a gomap = "(string \<times> 'a) list"

definition lookup :: "'a option gomap \<Rightarrow> string \<Rightarrow> 'a option" where
  "lookup m k = (case map_of m k of None \<Rightarrow> None | Some v \<Rightarrow> v)"

subsection \<open>Stores (the Cacher interface)\<close>

text \<open>
  The repository has two implementations of \<open>Cacher\<close>: \<open>localCache\<close> over freecache
  (local\_cacher.go) and \<open>redisCache\<close> over go-redis (redis\_cacher.go). A store is its
  kind, the values it holds, each with the TTL argument of the write that stored it,
  and \<open>fault\<close>, the error with which the client library underneath fails its calls
  (\<open>None\<close>: the library works). Eviction and physical expiry inside the libraries are
  not modelled. What the libraries do is taken from their documentation: freecache's
  \<open>Del\<close> has no error result; go-redis runs an empty pipeline without contacting the
  server; the server refuses \<open>MGET\<close> and \<open>DEL\<close> without keys.
\<close>

datatype cacher_kind = LocalCache | RedisCache

record cacher =
  kind :: cacher_kind
  kv :: "string \<rightharpoonup> (byte list \<times> int64)"
  fault :: "error option"

text \<open>\<open>fmt.Errorf(prefix + "%w", err)\<close>\<close>

definition wrapErr :: "string \<Rightarrow> error \<Rightarrow> error" where
  "wrapErr prefix err = (case err of Err m \<Rightarrow> Err (prefix @ m))"

definition errPrefix :: "cacher_kind \<Rightarrow> string" where
  "errPrefix k = (case k of LocalCache \<Rightarrow> ''freecache error: '' | RedisCache \<Rightarrow> ''redis error: '')"

definition no_keys_error :: "string \<Rightarrow> error" where
  "no_keys_error cmd =
     Err (''redis error: ERR wrong number of arguments for '' @ [CHR 0x27] @ cmd @ [CHR 0x27]
          @ '' command'')"

text \<open>
  \<open>Get\<close> of both kinds: a missing key (\<open>freecache.ErrNotFound\<close>, \<open>redis.Nil\<close>) is
  \<open>nil, nil\<close>; any other error is wrapped.
\<close>

definition cacher_Get :: "cacher \<Rightarrow> string \<Rightarrow> error + byte list option" where
  "cacher_Get s key =
     (case fault s of
        Some err \<Rightarrow> Inl (wrapErr (errPrefix (kind s)) err)
      | None \<Rightarrow> Inr (map_option fst (kv s key)))"

text \<open>The loop of \<open>localCache.MGet\<close>: one \<open>Get\<close> per key, the first error wrapped again.\<close>

fun local_MGet_loop :: "cacher \<Rightarrow> string list \<Rightarrow> byte list option gomap \<Rightarrow> error + byte list option gomap" where
  "local_MGet_loop s [] result = Inr result"
| "local_MGet_loop s (key # keys) result =
     (case cacher_Get s key of
        Inl err \<Rightarrow> Inl (wrapErr ''freecache error: '' err)
      | Inr v \<Rightarrow> local_MGet_loop s keys (AList.update key v result))"

text \<open>
  \<open>redisCache.MGet\<close>: one \<open>MGET\<close>; a reply that is not a string or is the empty string
  gives nil for its key.
\<close>

definition redis_MGet_value :: "cacher \<Rightarrow> string \<Rightarrow> byte list option" where
  "redis_MGet_value s key =
     (case kv s key of
        None \<Rightarrow> None
      | Some (v, t) \<Rightarrow> if v = [] then None else Some v)"

definition cacher_MGet :: "cacher \<Rightarrow> string list \<Rightarrow> error + byte list option gomap" where
  "cacher_MGet s keys =
     (case kind s of
        LocalCache \<Rightarrow> local_MGet_loop s keys []
      | RedisCache \<Rightarrow>
          (case fault s of
             Some err \<Rightarrow> Inl (wrapErr ''redis error: '' err)
           | None \<Rightarrow>
               if keys = [] then Inl (no_keys_error ''mget'')
               else Inr (foldl (\<lambda>result key. AList.update key (redis_MGet_value s key) result) [] keys)))"

definition cacher_Set :: "cacher \<Rightarrow> string \<Rightarrow> byte list \<Rightarrow> int64 \<Rightarrow> error option \<times> cacher" where
  "cacher_Set s key v t =
     (case fault s of
        Some err \<Rightarrow> (Some (wrapErr (errPrefix (kind s)) err), s)
      | None \<Rightarrow> (None, s\<lparr>kv := (kv s)(key \<mapsto> (v, t))\<rparr>))"

text \<open>\<open>localCache.Delete\<close> and \<open>MDelete\<close> return nil whatever freecache's \<open>Del\<close> does.\<close>

definition cacher_Delete :: "cacher \<Rightarrow> string \<Rightarrow> error option \<times> cacher" where
  "cacher_Delete s key =
     (case kind s of
        LocalCache \<Rightarrow> (None, s\<lparr>kv := (kv s)(key := None)\<rparr>)
      | RedisCache \<Rightarrow>
          (case fault s of
             Some err \<Rightarrow> (Some (wrapErr ''redis error: '' err), s)
           | None \<Rightarrow> (None, s\<lparr>kv := (kv s)(key := None)\<rparr>)))"

definition cacher_MDelete :: "cacher \<Rightarrow> string list \<Rightarrow> error option \<times> cacher" where
  "cacher_MDelete s keys =
     (case kind s of
        LocalCache \<Rightarrow> (None, s\<lparr>kv := foldl (\<lambda>m k. m(k := None)) (kv s) keys\<rparr>)
      | RedisCache \<Rightarrow>
          (case fault s of
             Some err \<Rightarrow> (Some (wrapErr ''redis error: '' err), s)
           | None \<Rightarrow>
               if keys = [] then (Some (no_keys_error ''del''), s)
               else (None, s\<lparr>kv := foldl (\<lambda>m k. m(k := None)) (kv s) keys\<rparr>)))"

text \<open>
  The loop of \<open>localCache.MSet\<close>: one \<open>Set\<close> per pair; at the first error the keys
  written so far are deleted and the error is returned.
\<close>

fun local_MSet_loop ::
  "cacher \<Rightarrow> int64 \<Rightarrow> byte list gomap \<Rightarrow> string list \<Rightarrow> error option \<times> cacher" where
  "local_MSet_loop s t [] success = (None, s)"
| "local_MSet_loop s t ((k, v) # kvs) success =
     (case cacher_Set s k v t of
        (Some err, s') \<Rightarrow> (Some err, snd (cacher_MDelete s' success))
      | (None, s') \<Rightarrow> local_MSet_loop s' t kvs (success @ [k]))"

text \<open>\<open>redisCache.MSet\<close>: one \<open>SET\<close> per pair in a pipeline.\<close>

definition cacher_MSet :: "cacher \<Rightarrow> byte list gomap \<Rightarrow> int64 \<Rightarrow> error option \<times> cacher" where
  "cacher_MSet s kvs t =
     (case kind s of
        LocalCache \<Rightarrow> local_MSet_loop s t kvs []
      | RedisCache \<Rightarrow>
          if kvs = [] then (None, s)
          else (case fault s of
                  Some err \<Rightarrow> (Some (wrapErr ''redis error: '' err), s)
                | None \<Rightarrow> (None, s\<lparr>kv := foldl (\<lambda>m (k, v). m(k \<mapsto> (v, t))) (kv s) kvs\<rparr>)))"

subsection \<open>The world outside the cache\<close>

text \<open>
  The stores are shared objects: \<open>stores\<close> maps the address of a \<open>Cacher\<close> to its
  state, and a wrapper holds addresses. \<open>clock\<close> is the reading of
  \<open>time.Now().UnixMilli()\<close>, taken as constant during one operation. \<open>rand_src\<close>
  and \<open>rand_pos\<close> are the random source read by \<open>rand.Int63n\<close>. \<open>f64_mul13\<close>
  stands for \<open>time.Duration(float64(d) * 1.3)\<close>, a floating-point product that is
  left as a parameter.
\<close>

record world =
  stores :: "nat \<Rightarrow> cacher"
  clock :: int64
  rand_src :: "nat \<Rightarrow> nat"
  rand_pos :: nat
  f64_mul13 :: "int64 \<Rightarrow> int64"

definition Int63n :: "nat \<Rightarrow> world \<Rightarrow> int64 \<times> world" where
  "Int63n n st = (of_nat (rand_src st (rand_pos st) mod n), st\<lparr>rand_pos := rand_pos st + 1\<rparr>)"

definition Millisecond :: int64 where
  "Millisecond = 1000000"

subsection \<open>Two-tier wrapper (wrapper.go)\<close>

record 'v wrapper =
  l1 :: "nat option"
  l2 :: "nat option"
  w_cacheNil :: bool
  delTTL :: int64
  w_codec :: "'v codec"

text \<open>
  \<open>newWrapper\<close> sets \<open>l1\<close>, \<open>l2\<close>, \<open>delTTL\<close>, \<open>codec\<close> and \<open>logger\<close>; the field
  \<open>cacheNil\<close> keeps its zero value. The logger only prints and is left out.
\<close>

definition newWrapper :: "nat option \<Rightarrow> nat option \<Rightarrow> int64 \<Rightarrow> 'v codec \<Rightarrow> 'v wrapper" where
  "newWrapper c1 c2 d c = \<lparr>l1 = c1, l2 = c2, w_cacheNil = False, delTTL = d, w_codec = c\<rparr>"

definition getDelTTL :: "'v wrapper \<Rightarrow> int \<Rightarrow> world \<Rightarrow> int64 outcome \<times> world" where
  "getDelTTL w level st =
     (if level \<noteq> 1 \<and> level \<noteq> 2 then (Panics InvalidLevel, st)
      else (let (n, st') = Int63n 1000 st;
                r = n * Millisecond
            in if level = 1 then (Ret (delTTL w + r), st')
               else (Ret (f64_mul13 st (delTTL w) + r), st')))"

definition latest :: "'v entry option \<Rightarrow> 'v entry option \<Rightarrow> 'v entry option" where
  "latest e1 e2 =
     (case (e1, e2) of
        (None, None) \<Rightarrow> None
      | (Some a, Some b) \<Rightarrow> (if CreateAt b <s CreateAt a then Some a else Some b)
      | (Some a, None) \<Rightarrow> Some a
      | (None, Some b) \<Rightarrow> Some b)"

text \<open>\<open>e != nil && !e.IsExpired()\<close>\<close>

definition notExpired :: "'v entry option \<Rightarrow> int64 \<Rightarrow> bool" where
  "notExpired eo now = (case eo of None \<Rightarrow> False | Some e \<Rightarrow> \<not> IsExpired e now)"

definition wrapper_get :: "'v wrapper \<Rightarrow> nat option \<Rightarrow> string \<Rightarrow> world \<Rightarrow> 'v entry option" where
  "wrapper_get w cacher key st =
     (case cacher of
        None \<Rightarrow> None
      | Some a \<Rightarrow>
          (case cacher_Get (stores st a) key of
             Inl err \<Rightarrow> None
           | Inr None \<Rightarrow> None
           | Inr (Some v) \<Rightarrow> deserializeEntry v))"

text \<open>
  \<open>set\<close> serializes through the shared envelope pointer; the payload bytes that
  \<open>Serialize\<close> caches in the envelope are those a later \<open>Marshal\<close> of the same value
  gives, so the updated envelope is not passed on.
\<close>

definition wrapper_set ::
  "'v wrapper \<Rightarrow> nat option \<Rightarrow> string \<Rightarrow> 'v entry option \<Rightarrow> int64 \<Rightarrow> world \<Rightarrow> error option \<times> world" where
  "wrapper_set w cacher key v t st =
     (case (cacher, v) of
        (Some a, Some e) \<Rightarrow>
          (case Serialize (w_codec w) e of
             Inl err \<Rightarrow> (Some err, st)
           | Inr (bytes, _) \<Rightarrow>
               (let (err, s') = cacher_Set (stores st a) key bytes t
                in (err, st\<lparr>stores := (stores st)(a := s')\<rparr>)))
      | _ \<Rightarrow> (None, st))"

definition wrapper_Get :: "'v wrapper \<Rightarrow> string \<Rightarrow> world \<Rightarrow> 'v entry option outcome \<times> world" where
  "wrapper_Get w key st =
     (let fromL1 = wrapper_get w (l1 w) key st
      in if notExpired fromL1 (clock st) then (Ret fromL1, st)
         else (let fromL2 = wrapper_get w (l2 w) key st
               in if notExpired fromL2 (clock st)
                  then (case getDelTTL w 1 st of
                          (Panics p, st1) \<Rightarrow> (Panics p, st1)
                        | (Ret t, st1) \<Rightarrow>
                            (let (_, st2) = wrapper_set w (l1 w) key fromL2 t st1
                             in (Ret fromL2, st2)))
                  else (Ret (latest fromL1 fromL2), st)))"

definition wrapper_mGet :: "'v wrapper \<Rightarrow> nat option \<Rightarrow> string list \<Rightarrow> world \<Rightarrow> 'v entry option gomap" where
  "wrapper_mGet w cacher keys st =
     (case cacher of
        None \<Rightarrow> []
      | Some a \<Rightarrow>
          (case cacher_MGet (stores st a) keys of
             Inl err \<Rightarrow> []
           | Inr kvs \<Rightarrow>
               foldl (\<lambda>data (k, v).
                        case v of None \<Rightarrow> data
                                | Some bs \<Rightarrow> AList.update k (deserializeEntry bs) data) [] kvs))"

text \<open>The loop of \<open>mSet\<close>: it stops at the first envelope that fails to serialize.\<close>

fun mSet_loop :: "'v wrapper \<Rightarrow> 'v entry option gomap \<Rightarrow> byte list gomap \<Rightarrow> error + byte list gomap" where
  "mSet_loop w [] data = Inr data"
| "mSet_loop w ((k, v) # kvs) data =
     (case v of
        None \<Rightarrow> mSet_loop w kvs data
      | Some e \<Rightarrow>
          if IsNil e \<and> \<not> w_cacheNil w then mSet_loop w kvs data
          else (case Serialize (w_codec w) e of
                  Inl err \<Rightarrow> Inl err
                | Inr (bytes, _) \<Rightarrow> mSet_loop w kvs (AList.update k bytes data)))"

definition wrapper_mSet ::
  "'v wrapper \<Rightarrow> nat option \<Rightarrow> 'v entry option gomap \<Rightarrow> int64 \<Rightarrow> world \<Rightarrow> error option \<times> world" where
  "wrapper_mSet w cacher kvs t st =
     (case cacher of
        None \<Rightarrow> (None, st)
      | Some a \<Rightarrow>
          if length kvs = 0 then (None, st)
          else (case mSet_loop w kvs [] of
                  Inl err \<Rightarrow> (Some err, st)
                | Inr data \<Rightarrow>
                    (let (err, s') = cacher_MSet (stores st a) data t
                     in (err, st\<lparr>stores := (stores st)(a := s')\<rparr>))))"

text \<open>The two loops of \<open>MGet\<close>.\<close>

fun MGet_loop1 ::
  "'v entry option gomap \<Rightarrow> int64 \<Rightarrow> string list \<Rightarrow> 'v entry option gomap \<times> string list
     \<Rightarrow> 'v entry option gomap \<times> string list" where
  "MGet_loop1 fromL1 now [] (hit, miss) = (hit, miss)"
| "MGet_loop1 fromL1 now (key # keys) (hit, miss) =
     (let v = lookup fromL1 key;
          hit' = AList.update key v hit
      in MGet_loop1 fromL1 now keys
           (hit', if v = None \<or> \<not> notExpired v now then miss @ [key] else miss))"

fun MGet_loop2 ::
  "'v entry option gomap \<Rightarrow> int64 \<Rightarrow> string list \<Rightarrow> 'v entry option gomap \<times> 'v entry option gomap
     \<Rightarrow> 'v entry option gomap \<times> 'v entry option gomap" where
  "MGet_loop2 fromL2 now [] (hit, hitL2) = (hit, hitL2)"
| "MGet_loop2 fromL2 now (key # keys) (hit, hitL2) =
     (let v = lookup fromL2 key;
          hit' = AList.update key (latest (lookup hit key) v) hit
      in MGet_loop2 fromL2 now keys
           (hit', if notExpired v now then AList.update key v hitL2 else hitL2))"

definition wrapper_MGet ::
  "'v wrapper \<Rightarrow> string list \<Rightarrow> world \<Rightarrow> 'v entry option gomap outcome \<times> world" where
  "wrapper_MGet w keys st =
     (let fromL1 = wrapper_mGet w (l1 w) keys st;
          (hit, miss) = MGet_loop1 fromL1 (clock st) keys ([], [])
      in if length miss = 0 then (Ret hit, st)
         else (let fromL2 = wrapper_mGet w (l2 w) miss st;
                   (hit', hitL2) = MGet_loop2 fromL2 (clock st) keys (hit, [])
               in case getDelTTL w 1 st of
                    (Panics p, st1) \<Rightarrow> (Panics p, st1)
                  | (Ret t, st1) \<Rightarrow>
                      (let (_, st2) = wrapper_mSet w (l1 w) hitL2 t st1
                       in (Ret hit', st2))))"

text \<open>\<open>fmt.Errorf\<close> with two \<open>%w\<close> verbs; a nil error prints as \<open>%!w(<nil>)\<close>.\<close>

definition errText :: "error option \<Rightarrow> string" where
  "errText e = (case e of None \<Rightarrow> ''%!w(<nil>)'' | Some (Err m) \<Rightarrow> m)"

definition both_errors :: "string \<Rightarrow> error option \<Rightarrow> error option \<Rightarrow> error option" where
  "both_errors prefix l1Err l2Err =
     (if l1Err \<noteq> None \<or> l2Err \<noteq> None
      then Some (Err (prefix @ ''l1:'' @ errText l1Err @ '', l2:'' @ errText l2Err))
      else None)"

definition wrapper_Set ::
  "'v wrapper \<Rightarrow> string \<Rightarrow> 'v entry option \<Rightarrow> world \<Rightarrow> error option outcome \<times> world" where
  "wrapper_Set w key v st =
     (case getDelTTL w 2 st of
        (Panics p, st1) \<Rightarrow> (Panics p, st1)
      | (Ret t2, st1) \<Rightarrow>
          (let (l2Err, st2) = wrapper_set w (l2 w) key v t2 st1
           in case getDelTTL w 1 st2 of
                (Panics p, st3) \<Rightarrow> (Panics p, st3)
              | (Ret t1, st3) \<Rightarrow>
                  (let (l1Err, st4) = wrapper_set w (l1 w) key v t1 st3
                   in (Ret (both_errors ''cachex: cacher set error, '' l1Err l2Err), st4))))"

definition wrapper_MSet ::
  "'v wrapper \<Rightarrow> 'v entry option gomap \<Rightarrow> world \<Rightarrow> error option outcome \<times> world" where
  "wrapper_MSet w kvs st =
     (case getDelTTL w 2 st of
        (Panics p, st1) \<Rightarrow> (Panics p, st1)
      | (Ret t2, st1) \<Rightarrow>
          (let (l2Err, st2) = wrapper_mSet w (l2 w) kvs t2 st1
           in case getDelTTL w 1 st2 of
                (Panics p, st3) \<Rightarrow> (Panics p, st3)
              | (Ret t1, st3) \<Rightarrow>
                  (let (l1Err, st4) = wrapper_mSet w (l1 w) kvs t1 st3
                   in (Ret (both_errors ''cachex: mSet cacher error, '' l1Err l2Err), st4))))"

definition wrapper_delete :: "'v wrapper \<Rightarrow> nat option \<Rightarrow> string \<Rightarrow> world \<Rightarrow> error option \<times> world" where
  "wrapper_delete w cacher key st =
     (case cacher of
        None \<Rightarrow> (None, st)
      | Some a \<Rightarrow>
          (let (err, s') = cacher_Delete (stores st a) key
           in (err, st\<lparr>stores := (stores st)(a := s')\<rparr>)))"

definition wrapper_Delete :: "'v wrapper \<Rightarrow> string \<Rightarrow> world \<Rightarrow> error option \<times> world" where
  "wrapper_Delete w key st =
     (let (l2Err, st1) = wrapper_delete w (l2 w) key st;
          (l1Err, st2) = wrapper_delete w (l1 w) key st1
      in (both_errors ''cachex: cahcer delete error: '' l1Err l2Err, st2))"

definition wrapper_mDelete :: "'v wrapper \<Rightarrow> nat option \<Rightarrow> string list \<Rightarrow> world \<Rightarrow> error option \<times> world" where
  "wrapper_mDelete w cacher keys st =
     (case cacher of
        None \<Rightarrow> (None, st)
      | Some a \<Rightarrow>
          if length keys = 0 then (None, st)
          else (let (err, s') = cacher_MDelete (stores st a) keys
                in (err, st\<lparr>stores := (stores st)(a := s')\<rparr>)))"

definition wrapper_MDelete :: "'v wrapper \<Rightarrow> string list \<Rightarrow> world \<Rightarrow> error option \<times> world" where
  "wrapper_MDelete w keys st =
     (let (l2Err, st1) = wrapper_mDelete w (l2 w) keys st;
          (l1Err, st2) = wrapper_mDelete w (l1 w) keys st1
      in (both_errors ''cachex: cahcer mDelete error: '' l1Err l2Err, st2))"

subsection \<open>Facade (impl.go)\<close>

text \<open>\<open>type SourceStrategy int64\<close> (cachex.go)\<close>

definition SourceStrategyCacheFirst :: int64 where "SourceStrategyCacheFirst = 1"
definition SourceStrategySourceFirst :: int64 where "SourceStrategySourceFirst = 2"
definition SourceStrategyCacheOnly :: int64 where "SourceStrategyCacheOnly = 3"
definition SourceStrategySourceOnly :: int64 where "SourceStrategySourceOnly = 4"
definition SourceStrategyExpiredBackup :: int64 where "SourceStrategyExpiredBackup = 5"

text \<open>
  The facade struct. \<open>cache\<close> is a pointer to the wrapper and may be nil; the loaders
  are function values and may be nil; they are functions from keys to what the user's
  loader returns. \<open>genKeyFn\<close> is never nil in a facade (\<open>Build\<close> refuses it). The
  single-flight groups coalesce concurrent calls and, for one caller, run the function
  given to \<open>Do\<close>; the logger only prints. Both are left out.
\<close>

record ('k, 'v) cachex =
  namespace :: string
  c_codec :: "'v codec"
  expireTTL :: int64
  cache :: "'v wrapper option"
  genKeyFn :: "'k \<Rightarrow> string"
  loaderFn :: "('k \<Rightarrow> error + 'v option) option"
  mLoaderFn :: "('k list \<Rightarrow> error + 'v option list) option"
  cacheNil :: bool
  ss :: int64

definition clone :: "('k, 'v) cachex \<Rightarrow> ('k, 'v) cachex" where
  "clone c = \<lparr>namespace = namespace c, c_codec = c_codec c, expireTTL = expireTTL c,
              cache = None,
              genKeyFn = genKeyFn c, loaderFn = loaderFn c, mLoaderFn = mLoaderFn c,
              cacheNil = cacheNil c, ss = ss c\<rparr>"

definition WithSourceStrategy :: "('k, 'v) cachex \<Rightarrow> int64 \<Rightarrow> ('k, 'v) cachex" where
  "WithSourceStrategy c s = (clone c)\<lparr>ss := s\<rparr>"

definition key :: "('k, 'v) cachex \<Rightarrow> 'k \<Rightarrow> string" where
  "key c k = namespace c @ '':'' @ genKeyFn c k"

text \<open>\<open>gslice.Uniq\<close> keeps the first occurrence of each element, in order.\<close>

definition Uniq :: "'a list \<Rightarrow> 'a list" where
  "Uniq xs = rev (remdups (rev xs))"

definition keys :: "('k, 'v) cachex \<Rightarrow> 'k list \<Rightarrow> string list" where
  "keys c ks = Uniq (map (key c) ks)"

text \<open>
  Calls through the \<open>cache\<close> pointer. With a nil pointer the method starts and panics
  at its first field access, before any store is touched.
\<close>

definition cache_Get :: "('k, 'v) cachex \<Rightarrow> string \<Rightarrow> world \<Rightarrow> 'v entry option outcome \<times> world" where
  "cache_Get c k st = (case cache c of None \<Rightarrow> (Panics NilPointer, st) | Some w \<Rightarrow> wrapper_Get w k st)"

definition cache_MGet :: "('k, 'v) cachex \<Rightarrow> string list \<Rightarrow> world \<Rightarrow> 'v entry option gomap outcome \<times> world" where
  "cache_MGet c ks st = (case cache c of None \<Rightarrow> (Panics NilPointer, st) | Some w \<Rightarrow> wrapper_MGet w ks st)"

definition cache_Set :: "('k, 'v) cachex \<Rightarrow> string \<Rightarrow> 'v entry option \<Rightarrow> world \<Rightarrow> error option outcome \<times> world" where
  "cache_Set c k v st = (case cache c of None \<Rightarrow> (Panics NilPointer, st) | Some w \<Rightarrow> wrapper_Set w k v st)"

definition cache_MSet :: "('k, 'v) cachex \<Rightarrow> 'v entry option gomap \<Rightarrow> world \<Rightarrow> error option outcome \<times> world" where
  "cache_MSet c kvs st = (case cache c of None \<Rightarrow> (Panics NilPointer, st) | Some w \<Rightarrow> wrapper_MSet w kvs st)"

definition cache_Delete :: "('k, 'v) cachex \<Rightarrow> string \<Rightarrow> world \<Rightarrow> error option outcome \<times> world" where
  "cache_Delete c k st =
     (case cache c of None \<Rightarrow> (Panics NilPointer, st)
                    | Some w \<Rightarrow> (let (err, st') = wrapper_Delete w k st in (Ret err, st')))"

definition cache_MDelete :: "('k, 'v) cachex \<Rightarrow> string list \<Rightarrow> world \<Rightarrow> error option outcome \<times> world" where
  "cache_MDelete c ks st =
     (case cache c of None \<Rightarrow> (Panics NilPointer, st)
                    | Some w \<Rightarrow> (let (err, st') = wrapper_MDelete w ks st in (Ret err, st')))"

text \<open>The function that \<open>load\<close> runs under the single-flight group.\<close>

definition load_single ::
  "('k, 'v) cachex \<Rightarrow> ('k \<Rightarrow> error + 'v option) \<Rightarrow> 'k \<Rightarrow> int64 \<Rightarrow> error + 'v entry option" where
  "load_single c f k now =
     (case f k of
        Inl (Err m) \<Rightarrow> Inl (Err (''loader fn err: '' @ m))
      | Inr v \<Rightarrow> Inr (Some (newEntry v (expireTTL c) now)))"

text \<open>
  The fan-out of \<open>mLoad\<close> over the point loader. It calls \<open>load\<close>, which with a point
  loader configured is \<open>load_single\<close>. The tasks run one after the other here, and the
  first error in key order is the one returned.
\<close>

fun mLoad_each ::
  "('k, 'v) cachex \<Rightarrow> ('k \<Rightarrow> error + 'v option) \<Rightarrow> int64 \<Rightarrow> 'k list \<Rightarrow> 'v entry option gomap
     \<Rightarrow> error + 'v entry option gomap" where
  "mLoad_each c f now [] res = Inr res"
| "mLoad_each c f now (k # ks) res =
     (case load_single c f k now of
        Inl err \<Rightarrow> Inl err
      | Inr v \<Rightarrow> mLoad_each c f now ks (AList.update (key c k) v res))"

definition mLoad :: "('k, 'v) cachex \<Rightarrow> 'k list \<Rightarrow> world \<Rightarrow> error + 'v entry option gomap" where
  "mLoad c ks st =
     (case (loaderFn c, mLoaderFn c) of
        (None, None) \<Rightarrow> Inl (Err ''loader not set'')
      | (Some f, None) \<Rightarrow> mLoad_each c f (clock st) ks []
      | (_, Some mf) \<Rightarrow>
          (case mf ks of
             Inl (Err m) \<Rightarrow> Inl (Err (''mloader fn err: '' @ m))
           | Inr values \<Rightarrow>
               if length ks \<noteq> length values
               then Inl (Err ''mloader fn err: len(keys) != len(values)'')
               else Inr (foldl (\<lambda>res (k, v).
                                  AList.update (key c k) (Some (newEntry v (expireTTL c) (clock st))) res)
                               [] (zip ks values))))"

definition load :: "('k, 'v) cachex \<Rightarrow> 'k \<Rightarrow> world \<Rightarrow> error + 'v entry option" where
  "load c k st =
     (case (loaderFn c, mLoaderFn c) of
        (None, None) \<Rightarrow> Inl (Err ''loader not set'')
      | (None, Some mf) \<Rightarrow>
          (case mLoad c [k] st of
             Inl err \<Rightarrow> Inl err
           | Inr vals \<Rightarrow> Inr (lookup vals (key c k)))
      | (Some f, _) \<Rightarrow> load_single c f k (clock st))"

definition cachex_set ::
  "('k, 'v) cachex \<Rightarrow> string \<Rightarrow> 'v entry option \<Rightarrow> world \<Rightarrow> error option outcome \<times> world" where
  "cachex_set c k v st =
     (case v of
        None \<Rightarrow> (Ret None, st)
      | Some e \<Rightarrow>
          if IsNil e \<and> \<not> cacheNil c then (Ret None, st)
          else cache_Set c k v st)"

text \<open>
  \<open>mSet\<close> builds the filtered map \<open>data\<close> and then passes the unfiltered \<open>kvs\<close> to the
  wrapper.
\<close>

definition mSet_data :: "('k, 'v) cachex \<Rightarrow> 'v entry option gomap \<Rightarrow> 'v entry option gomap" where
  "mSet_data c kvs =
     foldl (\<lambda>data (k, v).
              case v of
                Some e \<Rightarrow> if IsNil e \<and> \<not> cacheNil c then data else AList.update k v data
              | None \<Rightarrow> AList.update k v data) [] kvs"

definition cachex_mSet ::
  "('k, 'v) cachex \<Rightarrow> 'v entry option gomap \<Rightarrow> world \<Rightarrow> error option outcome \<times> world" where
  "cachex_mSet c kvs st = (let data = mSet_data c kvs in cache_MSet c kvs st)"

definition Set_op :: "('k, 'v) cachex \<Rightarrow> 'k \<Rightarrow> 'v option \<Rightarrow> world \<Rightarrow> error option outcome \<times> world" where
  "Set_op c k v st = cachex_set c (key c k) (Some (newEntry v (expireTTL c) (clock st))) st"

definition MSet :: "('k, 'v) cachex \<Rightarrow> 'k list \<Rightarrow> 'v option list \<Rightarrow> world \<Rightarrow> error option outcome \<times> world" where
  "MSet c ks values st =
     (if length ks \<noteq> length values then (Ret (Some (Err ''keys values length not equal'')), st)
      else (let kvs = foldl (\<lambda>m (k, v).
                               AList.update (key c k) (Some (newEntry v (expireTTL c) (clock st))) m)
                            [] (zip ks values)
            in cachex_mSet c kvs st))"

definition Del :: "('k, 'v) cachex \<Rightarrow> 'k \<Rightarrow> world \<Rightarrow> error option outcome \<times> world" where
  "Del c k st = cache_Delete c (key c k) st"

definition MDel :: "('k, 'v) cachex \<Rightarrow> 'k list \<Rightarrow> world \<Rightarrow> error option outcome \<times> world" where
  "MDel c ks st = cache_MDelete c (keys c ks) st"

subsubsection \<open>Get\<close>

type_synonym 'v get_result = "('v option \<times> error option) outcome \<times> world"

definition ssCacheFirstGet :: "('k, 'v) cachex \<Rightarrow> 'k \<Rightarrow> world \<Rightarrow> 'v get_result" where
  "ssCacheFirstGet c k st =
     (let cacheKey = key c k
      in case cache_Get c cacheKey st of
           (Panics p, st1) \<Rightarrow> (Panics p, st1)
         | (Ret fromCache, st1) \<Rightarrow>
             if notExpired fromCache (clock st1) then (Value (c_codec c) fromCache, st1)
             else (case load c k st1 of
                     Inl err \<Rightarrow> (Ret (None, Some err), st1)
                   | Inr fromSource \<Rightarrow>
                       (case cachex_set c cacheKey fromSource st1 of
                          (Panics p, st2) \<Rightarrow> (Panics p, st2)
                        | (Ret _, st2) \<Rightarrow> (Value (c_codec c) fromSource, st2))))"

definition ssSourceFirstGet :: "('k, 'v) cachex \<Rightarrow> 'k \<Rightarrow> world \<Rightarrow> 'v get_result" where
  "ssSourceFirstGet c k st =
     (let cacheKey = key c k
      in case load c k st of
           Inl err \<Rightarrow>
             (case cache_Get c cacheKey st of
                (Panics p, st1) \<Rightarrow> (Panics p, st1)
              | (Ret fromCache, st1) \<Rightarrow>
                  if notExpired fromCache (clock st1) then (Value (c_codec c) fromCache, st1)
                  else (Ret (None, Some err), st1))
         | Inr fromSource \<Rightarrow>
             (case cachex_set c cacheKey fromSource st of
                (Panics p, st2) \<Rightarrow> (Panics p, st2)
              | (Ret _, st2) \<Rightarrow> (Value (c_codec c) fromSource, st2)))"

definition ssCacheOnlyGet :: "('k, 'v) cachex \<Rightarrow> 'k \<Rightarrow> world \<Rightarrow> 'v get_result" where
  "ssCacheOnlyGet c k st =
     (let cacheKey = key c k
      in case cache_Get c cacheKey st of
           (Panics p, st1) \<Rightarrow> (Panics p, st1)
         | (Ret fromCache, st1) \<Rightarrow>
             if notExpired fromCache (clock st1) then (Value (c_codec c) fromCache, st1)
             else (Ret (None, None), st1))"

definition ssSourceOnlyGet :: "('k, 'v) cachex \<Rightarrow> 'k \<Rightarrow> world \<Rightarrow> 'v get_result" where
  "ssSourceOnlyGet c k st =
     (case load c k st of
        Inl err \<Rightarrow> (Ret (None, Some err), st)
      | Inr fromSource \<Rightarrow> (Value (c_codec c) fromSource, st))"

definition ssExpiredBackupGet :: "('k, 'v) cachex \<Rightarrow> 'k \<Rightarrow> world \<Rightarrow> 'v get_result" where
  "ssExpiredBackupGet c k st =
     (let cacheKey = key c k
      in case cache_Get c cacheKey st of
           (Panics p, st1) \<Rightarrow> (Panics p, st1)
         | (Ret fromCache, st1) \<Rightarrow>
             if notExpired fromCache (clock st1) then (Value (c_codec c) fromCache, st1)
             else (case load c k st1 of
                     Inl err \<Rightarrow>
                       if fromCache \<noteq> None then (Value (c_codec c) fromCache, st1)
                       else (Ret (None, Some err), st1)
                   | Inr fromSource \<Rightarrow>
                       (case cachex_set c cacheKey fromSource st1 of
                          (Panics p, st2) \<Rightarrow> (Panics p, st2)
                        | (Ret _, st2) \<Rightarrow> (Value (c_codec c) fromSource, st2))))"

text \<open>\<open>%v\<close> of an \<open>int64\<close>: its decimal digits, with a minus sign when negative.\<close>

fun digits :: "nat \<Rightarrow> string" where
  "digits n = (if n < 10 then [char_of (48 + n)] else digits (n div 10) @ [char_of (48 + n mod 10)])"

definition show_int64 :: "int64 \<Rightarrow> string" where
  "show_int64 x = (if sint x < 0 then ''-'' @ digits (nat (- sint x)) else digits (nat (sint x)))"

definition invalid_strategy :: "int64 \<Rightarrow> error" where
  "invalid_strategy s = Err (''invalid source strategy: '' @ show_int64 s)"

definition Get :: "('k, 'v) cachex \<Rightarrow> 'k \<Rightarrow> world \<Rightarrow> 'v get_result" where
  "Get c k st =
     (if ss c = SourceStrategyCacheFirst then ssCacheFirstGet c k st
      else if ss c = SourceStrategySourceFirst then ssSourceFirstGet c k st
      else if ss c = SourceStrategyCacheOnly then ssCacheOnlyGet c k st
      else if ss c = SourceStrategySourceOnly then ssSourceOnlyGet c k st
      else if ss c = SourceStrategyExpiredBackup then ssExpiredBackupGet c k st
      else (Ret (None, Some (invalid_strategy (ss c))), st))"

subsubsection \<open>MGet\<close>

type_synonym 'v mget_result = "('v option list \<times> error option) outcome \<times> world"

fun groupBatchRes_loop ::
  "('k, 'v) cachex \<Rightarrow> 'v entry option gomap \<Rightarrow> int64 \<Rightarrow> 'k list
     \<Rightarrow> 'v entry option gomap \<times> 'k list \<times> 'k list \<Rightarrow> 'v entry option gomap \<times> 'k list \<times> 'k list" where
  "groupBatchRes_loop c vals now [] acc = acc"
| "groupBatchRes_loop c vals now (k # ks) (hit, expire, miss) =
     (let ck = key c k; v = lookup vals ck
      in case v of
           None \<Rightarrow> groupBatchRes_loop c vals now ks (hit, expire, miss @ [k])
         | Some e \<Rightarrow>
             if IsExpired e now then groupBatchRes_loop c vals now ks (hit, expire @ [k], miss)
             else groupBatchRes_loop c vals now ks (AList.update ck v hit, expire, miss))"

definition groupBatchRes ::
  "('k, 'v) cachex \<Rightarrow> 'k list \<Rightarrow> 'v entry option gomap \<Rightarrow> int64
     \<Rightarrow> 'v entry option gomap \<times> 'k list \<times> 'k list" where
  "groupBatchRes c ks vals now = groupBatchRes_loop c vals now ks ([], [], [])"

fun packBatchRes :: "('k, 'v) cachex \<Rightarrow> 'k list \<Rightarrow> 'v entry option gomap \<Rightarrow> 'v option list outcome" where
  "packBatchRes c [] kvs = Ret []"
| "packBatchRes c (k # ks) kvs =
     (case lookup kvs (key c k) of
        None \<Rightarrow> (case packBatchRes c ks kvs of Panics p \<Rightarrow> Panics p | Ret res \<Rightarrow> Ret (None # res))
      | Some e \<Rightarrow>
          (case Value (c_codec c) (Some e) of
             Panics p \<Rightarrow> Panics p
           | Ret (v, err) \<Rightarrow>
               (case packBatchRes c ks kvs of
                  Panics p \<Rightarrow> Panics p
                | Ret res \<Rightarrow> Ret ((if err \<noteq> None then None else v) # res))))"

text \<open>\<open>gmap.Merge\<close>: the pairs of the second map override those of the first.\<close>

definition gmap_Merge :: "'a gomap \<Rightarrow> 'a gomap \<Rightarrow> 'a gomap" where
  "gmap_Merge a b = foldl (\<lambda>m (k, v). AList.update k v m) a b"

definition packed :: "'v option list outcome \<Rightarrow> world \<Rightarrow> 'v mget_result" where
  "packed r st = (case r of Panics p \<Rightarrow> (Panics p, st) | Ret res \<Rightarrow> (Ret (res, None), st))"

definition ssCacheOnlyMGet :: "('k, 'v) cachex \<Rightarrow> 'k list \<Rightarrow> world \<Rightarrow> 'v mget_result" where
  "ssCacheOnlyMGet c ks st =
     (case cache_MGet c (keys c ks) st of
        (Panics p, st1) \<Rightarrow> (Panics p, st1)
      | (Ret fromCache, st1) \<Rightarrow>
          (let (hit, _, _) = groupBatchRes c ks fromCache (clock st1)
           in packed (packBatchRes c ks hit) st1))"

definition ssSourceOnlyMGet :: "('k, 'v) cachex \<Rightarrow> 'k list \<Rightarrow> world \<Rightarrow> 'v mget_result" where
  "ssSourceOnlyMGet c ks st =
     (case mLoad c ks st of
        Inl err \<Rightarrow> (Ret ([], Some err), st)
      | Inr fromSource \<Rightarrow> packed (packBatchRes c ks fromSource) st)"

definition ssCacheFirstMGet :: "('k, 'v) cachex \<Rightarrow> 'k list \<Rightarrow> world \<Rightarrow> 'v mget_result" where
  "ssCacheFirstMGet c ks st =
     (case cache_MGet c (keys c ks) st of
        (Panics p, st1) \<Rightarrow> (Panics p, st1)
      | (Ret fromCache, st1) \<Rightarrow>
          (let (hit, expire, miss) = groupBatchRes c ks fromCache (clock st1)
           in if length miss = 0 \<and> length expire = 0 then packed (packBatchRes c ks hit) st1
              else (case mLoad c (expire @ miss) st1 of
                      Inl err \<Rightarrow> (Ret ([], Some err), st1)
                    | Inr fromSource \<Rightarrow>
                        (case cachex_mSet c fromSource st1 of
                           (Panics p, st2) \<Rightarrow> (Panics p, st2)
                         | (Ret _, st2) \<Rightarrow>
                             packed (packBatchRes c ks (gmap_Merge hit fromSource)) st2))))"

definition ssSourceFirstMGet :: "('k, 'v) cachex \<Rightarrow> 'k list \<Rightarrow> world \<Rightarrow> 'v mget_result" where
  "ssSourceFirstMGet c ks st =
     (case mLoad c ks st of
        Inl err \<Rightarrow>
          (case cache_MGet c (keys c ks) st of
             (Panics p, st1) \<Rightarrow> (Panics p, st1)
           | (Ret fromCache, st1) \<Rightarrow>
               (let (hit, _, _) = groupBatchRes c ks fromCache (clock st1)
                in packed (packBatchRes c ks hit) st1))
      | Inr fromSource \<Rightarrow>
          (case cachex_mSet c fromSource st of
             (Panics p, st2) \<Rightarrow> (Panics p, st2)
           | (Ret _, st2) \<Rightarrow> packed (packBatchRes c ks fromSource) st2))"

definition ssExpiredBackupMGet :: "('k, 'v) cachex \<Rightarrow> 'k list \<Rightarrow> world \<Rightarrow> 'v mget_result" where
  "ssExpiredBackupMGet c ks st =
     (case cache_MGet c (keys c ks) st of
        (Panics p, st1) \<Rightarrow> (Panics p, st1)
      | (Ret fromCache, st1) \<Rightarrow>
          (let (hit, expire, miss) = groupBatchRes c ks fromCache (clock st1)
           in if length miss = 0 \<and> length expire = 0 then packed (packBatchRes c ks hit) st1
              else (case mLoad c (expire @ miss) st1 of
                      Inl err \<Rightarrow> packed (packBatchRes c ks fromCache) st1
                    | Inr fromSource \<Rightarrow>
                        (case cachex_mSet c fromSource st1 of
                           (Panics p, st2) \<Rightarrow> (Panics p, st2)
                         | (Ret _, st2) \<Rightarrow>
                             packed (packBatchRes c ks (gmap_Merge hit fromSource)) st2))))"

text \<open>The dispatch of \<open>MGet\<close>; the arm of \<open>SourceStrategySourceFirst\<close> calls \<open>ssSourceOnlyMGet\<close>.\<close>

definition MGet :: "('k, 'v) cachex \<Rightarrow> 'k list \<Rightarrow> world \<Rightarrow> 'v mget_result" where
  "MGet c ks st =
     (if ss c = SourceStrategyCacheFirst then ssCacheFirstMGet c ks st
      else if ss c = SourceStrategySourceFirst then ssSourceOnlyMGet c ks st
      else if ss c = SourceStrategyCacheOnly then ssCacheOnlyMGet c ks st
      else if ss c = SourceStrategySourceOnly then ssSourceOnlyMGet c ks st
      else if ss c = SourceStrategyExpiredBackup then ssExpiredBackupMGet c ks st
      else (Ret ([], Some (invalid_strategy (ss c))), st))"

subsection \<open>Builder (builder.go)\<close>

record ('k, 'v) builder =
  b_namespace :: string
  b_codec :: "'v codec"
  b_expireTTL :: int64
  b_delTTL :: int64
  b_l1 :: "nat option"
  b_l2 :: "nat option"
  b_genKeyFn :: "('k \<Rightarrow> string) option"
  b_loaderFn :: "('k \<Rightarrow> error + 'v option) option"
  b_mLoaderFn :: "('k list \<Rightarrow> error + 'v option list) option"
  b_cacheNil :: bool
  b_ss :: int64

text \<open>\<open>newBuilder\<close>; the default JSON codec is an argument.\<close>

definition newBuilder :: "'v codec \<Rightarrow> ('k, 'v) builder" where
  "newBuilder json =
     \<lparr>b_namespace = ''default'', b_codec = json, b_expireTTL = 0, b_delTTL = 0,
      b_l1 = None, b_l2 = None, b_genKeyFn = None, b_loaderFn = None, b_mLoaderFn = None,
      b_cacheNil = False, b_ss = SourceStrategyCacheFirst\<rparr>"

definition WithL1 :: "('k, 'v) builder \<Rightarrow> nat option \<Rightarrow> ('k, 'v) builder" where
  "WithL1 b cacher = b\<lparr>b_l1 := cacher\<rparr>"

definition WithL2 :: "('k, 'v) builder \<Rightarrow> nat option \<Rightarrow> ('k, 'v) builder" where
  "WithL2 b cacher = b\<lparr>b_l2 := cacher\<rparr>"

definition WithGenKeyFn :: "('k, 'v) builder \<Rightarrow> ('k \<Rightarrow> string) option \<Rightarrow> ('k, 'v) builder" where
  "WithGenKeyFn b fn = b\<lparr>b_genKeyFn := fn\<rparr>"

definition WithLoader :: "('k, 'v) builder \<Rightarrow> ('k \<Rightarrow> error + 'v option) option \<Rightarrow> ('k, 'v) builder" where
  "WithLoader b fn = b\<lparr>b_loaderFn := fn\<rparr>"

definition WithCacheNil :: "('k, 'v) builder \<Rightarrow> bool \<Rightarrow> ('k, 'v) builder" where
  "WithCacheNil b v = b\<lparr>b_cacheNil := v\<rparr>"

definition WithCodec :: "('k, 'v) builder \<Rightarrow> 'v codec \<Rightarrow> ('k, 'v) builder" where
  "WithCodec b c = b\<lparr>b_codec := c\<rparr>"

definition WithNamespace :: "('k, 'v) builder \<Rightarrow> string \<Rightarrow> ('k, 'v) builder" where
  "WithNamespace b ns = b\<lparr>b_namespace := ns\<rparr>"

definition WithExpireTTL :: "('k, 'v) builder \<Rightarrow> int64 \<Rightarrow> ('k, 'v) builder" where
  "WithExpireTTL b t = b\<lparr>b_expireTTL := t\<rparr>"

definition WithDelTTL :: "('k, 'v) builder \<Rightarrow> int64 \<Rightarrow> ('k, 'v) builder" where
  "WithDelTTL b t = b\<lparr>b_delTTL := t\<rparr>"

definition WithMultiLoader ::
  "('k, 'v) builder \<Rightarrow> ('k list \<Rightarrow> error + 'v option list) option \<Rightarrow> ('k, 'v) builder" where
  "WithMultiLoader b fn = b\<lparr>b_mLoaderFn := fn\<rparr>"

definition builder_WithSourceStrategy :: "('k, 'v) builder \<Rightarrow> int64 \<Rightarrow> ('k, 'v) builder" where
  "builder_WithSourceStrategy b s = b\<lparr>b_ss := s\<rparr>"

definition Build :: "('k, 'v) builder \<Rightarrow> error + ('k, 'v) cachex" where
  "Build bb =
     (if b_namespace bb = [] then Inl (Err ''namespace not set'')
      else (case b_genKeyFn bb of
              None \<Rightarrow> Inl (Err ''gen cacheKey fn not set'')
            | Some g \<Rightarrow>
                if b_l2 bb \<noteq> None \<and> b_l1 bb = None then Inl (Err ''l1 cacher not set'')
                else if b_loaderFn bb = None \<and> b_mLoaderFn bb = None \<and> b_l1 bb = None \<and> b_l2 bb = None
                then Inl (Err ''cacher and loader not set'')
                else Inr \<lparr>namespace = b_namespace bb, c_codec = b_codec bb,
                          expireTTL = b_expireTTL bb,
                          cache = Some (newWrapper (b_l1 bb) (b_l2 bb) (b_delTTL bb) (b_codec bb)),
                          genKeyFn = g, loaderFn = b_loaderFn bb, mLoaderFn = b_mLoaderFn bb,
                          cacheNil = b_cacheNil bb, ss = b_ss bb\<rparr>))"

subsection \<open>Auxiliary predicates\<close>


subsection \<open>Example values\<close>

text \<open>
  A codec that does not encode the second component of a pair, as the JSON codecs do
  with a struct field that is unexported or tagged \<open>json:"-"\<close>.
\<close>

definition lossyCodec :: "(nat \<times> nat) codec" where
  "lossyCodec = \<lparr>
     Marshal = (\<lambda>v. case v of None \<Rightarrow> Inl (Err ''value is nil'') | Some (a, b) \<Rightarrow> Inr [of_nat a]),
     Unmarshal = (\<lambda>data. case data of [] \<Rightarrow> Inl (Err ''unexpected end of input'')
                                     | x # _ \<Rightarrow> Inr (Some (unat x, 0))) \<rparr>"

definition lossy_entry :: "(nat \<times> nat) entry" where
  "lossy_entry = newEntry (Some (1, 2)) 0 0"

definition lossy_frame :: "byte list" where
  "lossy_frame = PutUint64 0 @ PutUint64 0 @ [0] @ [1]"

definition ex_entry :: "byte list entry" where
  "ex_entry = \<lparr>createAt = 1000, ttl = 5000000, valBytes = [], val = Some [104, 105], isNil = 0\<rparr>"

text \<open>
  A 17-byte frame whose \<open>createAt\<close> is the largest \<open>int64\<close> and whose \<open>ttl\<close> is one
  millisecond, and the envelope it parses to.
\<close>

definition ov_frame :: "byte list" where
  "ov_frame = [255, 255, 255, 255, 255, 255, 255, 127, 64, 66, 15, 0, 0, 0, 0, 0, 0]"

definition ov_entry :: "byte list entry" where
  "ov_entry = \<lparr>createAt = 9223372036854775807, ttl = 1000000, valBytes = [], val = None, isNil = 0\<rparr>"

text \<open>An envelope whose cached payload bytes are not those of its value.\<close>

definition stale_entry :: "byte list entry" where
  "stale_entry = \<lparr>createAt = 0, ttl = 0, valBytes = [9], val = Some [1], isNil = 0\<rparr>"

text \<open>
  A frame with \<open>createAt = 1000\<close>, a \<open>ttl\<close> of 5 ms and the payload \<open>hi\<close>, and the
  envelope it parses to.
\<close>

definition ex_frame :: "byte list" where
  "ex_frame = PutUint64 1000 @ PutUint64 5000000 @ [0] @ [104, 105]"

definition ex_parsed :: "byte list entry" where
  "ex_parsed = \<lparr>createAt = 1000, ttl = 5000000, valBytes = [104, 105], val = None, isNil = 0\<rparr>"

text \<open>
  A world with an empty local store at address 0 and a Redis store at address 1 that
  holds \<open>ex_frame\<close> under the key \<open>default:k\<close>; the clock reads 1000 and every random
  draw is 7.
\<close>

definition ex_world :: world where
  "ex_world =
     \<lparr>stores = (\<lambda>a. if a = 1
                     then \<lparr>kind = RedisCache, kv = [''default:k'' \<mapsto> (ex_frame, 0)], fault = None\<rparr>
                     else \<lparr>kind = LocalCache, kv = Map.empty, fault = None\<rparr>),
      clock = 1000, rand_src = (\<lambda>n. 7), rand_pos = 0, f64_mul13 = (\<lambda>d. d)\<rparr>"

definition ex_wrapper :: "byte list wrapper" where
  "ex_wrapper = newWrapper (Some 0) (Some 1) 60000000000 rawString"

text \<open>The same world with \<open>ex_frame\<close> also in the local store.\<close>

definition ex_world_l1 :: world where
  "ex_world_l1 =
     ex_world\<lparr>stores := (\<lambda>a. if a = 1
                     then \<lparr>kind = RedisCache, kv = [''default:k'' \<mapsto> (ex_frame, 0)], fault = None\<rparr>
                     else \<lparr>kind = LocalCache, kv = [''default:k'' \<mapsto> (ex_frame, 0)], fault = None\<rparr>)\<rparr>"

text \<open>
  A builder with a key function, both layers, a delete-TTL of one minute and negative
  caching switched on, and the facade that \<open>Build\<close> makes of it.
\<close>

definition ex_builder :: "(string, byte list) builder" where
  "ex_builder =
     WithCacheNil
       (WithDelTTL (WithL2 (WithL1 (WithGenKeyFn (newBuilder rawString) (Some (\<lambda>k. k))) (Some 0)) (Some 1))
          60000000000)
       True"

definition ex_cachex :: "(string, byte list) cachex" where
  "ex_cachex =
     \<lparr>namespace = ''default'', c_codec = rawString, expireTTL = 0,
      cache = Some ex_wrapper, genKeyFn = (\<lambda>k. k), loaderFn = None, mLoaderFn = None,
      cacheNil = True, ss = SourceStrategyCacheFirst\<rparr>"


text \<open>
  A 17-byte frame that is not a nil envelope and has no payload, which \<open>lossyCodec\<close>
  cannot unmarshal; a world whose local store holds it; a facade over that store.
\<close>

definition corrupt_frame :: "byte list" where
  "corrupt_frame = PutUint64 1000 @ PutUint64 0 @ [0]"

definition corrupt_world :: world where
  "corrupt_world =
     \<lparr>stores = (\<lambda>a. \<lparr>kind = LocalCache, kv = [''default:k'' \<mapsto> (corrupt_frame, 0)], fault = None\<rparr>),
      clock = 1000, rand_src = (\<lambda>n. 7), rand_pos = 0, f64_mul13 = (\<lambda>d. d)\<rparr>"

definition lossy_cachex :: "(string, nat \<times> nat) cachex" where
  "lossy_cachex =
     \<lparr>namespace = ''default'', c_codec = lossyCodec, expireTTL = 0,
      cache = Some (newWrapper (Some 0) None 0 lossyCodec), genKeyFn = (\<lambda>k. k),
      loaderFn = None, mLoaderFn = None, cacheNil = False, ss = SourceStrategyCacheFirst\<rparr>"



text \<open>A batch loader that returns the one-byte value 1 for every key.\<close>

definition ones_loader :: "string list \<Rightarrow> error + byte list option list" where
  "ones_loader ks = Inr (map (\<lambda>k. Some [1]) ks)"





section \<open>Properties\<close>

subsection \<open>Little-endian encoding and expiry\<close>

lemma bit_byte_at:
  "bit (push_bit m (ucast (ucast (drop_bit m (v :: 64 word)) :: 8 word) :: 64 word)) n
     \<longleftrightarrow> m \<le> n \<and> n < m + 8 \<and> n < 64 \<and> bit v n"
  by (auto simp: bit_simps)

lemma bit_byte_0:
  "bit (ucast (ucast (v :: 64 word) :: 8 word) :: 64 word) n \<longleftrightarrow> n < 8 \<and> bit v n"
  by (auto simp: bit_simps)

lemma cover64: "(n::nat) < 64 \<Longrightarrow>
   n < 8 \<or> (8 \<le> n \<and> n < 16) \<or> (16 \<le> n \<and> n < 24) \<or> (24 \<le> n \<and> n < 32)
     \<or> (32 \<le> n \<and> n < 40) \<or> (40 \<le> n \<and> n < 48) \<or> (48 \<le> n \<and> n < 56) \<or> (56 \<le> n \<and> n < 64)"
  by linarith

lemma Uint64_bytes:
  "Uint64 [b0, b1, b2, b3, b4, b5, b6, b7] =
     ucast b0 OR push_bit 8 (ucast b1) OR push_bit 16 (ucast b2) OR push_bit 24 (ucast b3)
       OR push_bit 32 (ucast b4) OR push_bit 40 (ucast b5) OR push_bit 48 (ucast b6)
       OR push_bit 56 (ucast b7)"
  by (simp add: Uint64_def)

lemma Uint64_PutUint64: "Uint64 (PutUint64 v) = v"
proof (rule bit_word_eqI)
  fix n :: nat
  assume "n < LENGTH(64)"
  then have n: "n < 64" by simp
  have "bit (Uint64 (PutUint64 v)) n \<longleftrightarrow>
     (n < 8 \<or> (8 \<le> n \<and> n < 16) \<or> (16 \<le> n \<and> n < 24) \<or> (24 \<le> n \<and> n < 32)
     \<or> (32 \<le> n \<and> n < 40) \<or> (40 \<le> n \<and> n < 48) \<or> (48 \<le> n \<and> n < 56) \<or> (56 \<le> n \<and> n < 64))
      \<and> bit v n"
    unfolding PutUint64_def Uint64_bytes bit_or_iff bit_byte_at bit_byte_0
    using n by simp blast
  with cover64 [OF n] show "bit (Uint64 (PutUint64 v)) n \<longleftrightarrow> bit v n"
    by blast
qed

lemma length_PutUint64: "length (PutUint64 v) = 8"
  by (simp add: PutUint64_def)

lemma PutUint64_nth: "i < 8 \<Longrightarrow> PutUint64 v ! i = ucast (drop_bit (8 * i) v)"
proof -
  assume "i < 8"
  then have "i = 0 \<or> i = 1 \<or> i = 2 \<or> i = 3 \<or> i = 4 \<or> i = 5 \<or> i = 6 \<or> i = 7" by linarith
  then show ?thesis by (auto simp: PutUint64_def)
qed

lemma deserializeEntry_frame:
  "deserializeEntry (PutUint64 a @ PutUint64 b @ n # bs) =
     Some \<lparr>createAt = a, ttl = b, valBytes = bs, val = None, isNil = n\<rparr>"
  by (simp add: deserializeEntry_def slice_def bytesCreateAtSize_def bytesTTLSize_def
      bytesHeaderSize_def bytesIsNilSize_def length_PutUint64 Uint64_PutUint64 nth_append)

lemma sint_Milliseconds: "sint (Milliseconds d) = sint d sdiv 1000000"
proof -
  have b: "- (2 ^ 63) \<le> sint d" "sint d < 2 ^ 63"
    using sint_ge [of d] sint_lt [of d] by simp_all
  have "\<bar>sint d sdiv 1000000\<bar> \<le> \<bar>sint d\<bar> div 1000000"
    by (simp add: signed_divide_int_def abs_mult sgn_if)
  also have "\<dots> \<le> 2 ^ 63 div 1000000" using b by (intro zdiv_mono1) auto
  finally have "\<bar>sint d sdiv 1000000\<bar> \<le> 9223372036854" by simp
  then have "- (2 ^ 63) \<le> sint d sdiv 1000000 \<and> sint d sdiv 1000000 < 2 ^ 63" by simp linarith
  then show ?thesis
    by (simp add: Milliseconds_def sint_sbintrunc' signed_take_bit_int_eq_self)
qed

lemma IsExpired_no_overflow:
  assumes "- (2 ^ 63) \<le> sint (createAt e) + sint (ttl e) sdiv 1000000"
    and "sint (createAt e) + sint (ttl e) sdiv 1000000 < 2 ^ 63"
  shows "IsExpired e now \<longleftrightarrow>
      0 < sint (ttl e) \<and> sint (createAt e) + sint (ttl e) sdiv 1000000 < sint now"
proof -
  have "sint (createAt e + Milliseconds (ttl e)) = sint (createAt e) + sint (Milliseconds (ttl e))"
    using assms by (simp add: sint_word_ariths sint_Milliseconds signed_take_bit_int_eq_self)
  then show ?thesis
    by (simp add: IsExpired_def word_sle_eq word_sless_alt not_le sint_Milliseconds)
qed


text \<open>
  C6 as amended. An envelope is logically expired exactly when its \<open>ttl\<close> is positive
  and the \<open>int64\<close> sum of \<open>createAt\<close> and the \<open>ttl\<close> in milliseconds, which wraps around,
  is strictly less than the current time in milliseconds; an envelope with \<open>ttl \<le> 0\<close>
  is never expired; and where the sum stays within \<open>int64\<close> it is the sum of the
  integers.
\<close>

theorem IsExpired_iff:
  "(IsExpired e now \<longleftrightarrow>
      0 < sint (ttl e) \<and> sint (createAt e + Milliseconds (ttl e)) < sint now)
   \<and> (sint (ttl e) \<le> 0 \<longrightarrow> \<not> IsExpired e now)
   \<and> (- (2 ^ 63) \<le> sint (createAt e) + sint (ttl e) sdiv 1000000
        \<and> sint (createAt e) + sint (ttl e) sdiv 1000000 < 2 ^ 63 \<longrightarrow>
      (IsExpired e now \<longleftrightarrow>
         0 < sint (ttl e) \<and> sint (createAt e) + sint (ttl e) sdiv 1000000 < sint now))"
  using IsExpired_no_overflow [of e now]
  by (simp add: IsExpired_def word_sle_eq word_sless_alt not_le)

theorem IsExpired_iff_witness:
  "sint (ttl (ex_entry\<lparr>ttl := 0\<rparr>)) \<le> 0 \<and> \<not> IsExpired (ex_entry\<lparr>ttl := 0\<rparr>) 2000
   \<and> - (2 ^ 63) \<le> sint (createAt ex_entry) + sint (ttl ex_entry) sdiv 1000000
   \<and> sint (createAt ex_entry) + sint (ttl ex_entry) sdiv 1000000 < 2 ^ 63
   \<and> IsExpired ex_entry 2000 \<and> \<not> IsExpired ex_entry 1005"
  using IsExpired_iff [of "ex_entry\<lparr>ttl := 0\<rparr>" 2000] IsExpired_iff [of ex_entry 2000]
    IsExpired_iff [of ex_entry 1005]
  by (simp add: ex_entry_def signed_divide_int_def Milliseconds_def)

text \<open>
  C6 as stated, with the sum of the integers, fails where the \<open>int64\<close> sum wraps: the
  envelope parsed from \<open>ov_frame\<close> has \<open>createAt = 2^63 - 1\<close> and a \<open>ttl\<close> of one
  millisecond; at time 0 it is expired, though \<open>createAt\<close> plus one is not less than 0.
\<close>

theorem IsExpired_overflow_counterexample:
  "(deserializeEntry ov_frame :: byte list entry option) = Some ov_entry
   \<and> sint (createAt ov_entry) = 2 ^ 63 - 1
   \<and> sint (ttl ov_entry) sdiv 1000000 = 1
   \<and> IsExpired ov_entry 0
   \<and> \<not> (0 < sint (ttl ov_entry)
          \<and> sint (createAt ov_entry) + sint (ttl ov_entry) sdiv 1000000 < sint (0 :: int64))"
proof -
  have p: "ov_frame = PutUint64 9223372036854775807 @ PutUint64 1000000 @ 0 # []"
    by (simp add: ov_frame_def PutUint64_def drop_bit_eq_div)
  have d: "(deserializeEntry ov_frame :: byte list entry option) = Some ov_entry"
    unfolding p deserializeEntry_frame by (simp add: ov_entry_def)
  have e: "IsExpired ov_entry 0"
    by (simp add: IsExpired_def ov_entry_def Milliseconds_def signed_divide_int_def
        word_sle_eq word_sless_alt)
  show ?thesis using d e by (simp add: ov_entry_def signed_divide_int_def)
qed

subsection \<open>Wire format and round trip\<close>

lemma Serialize_frame:
  assumes "Serialize c e = Inr (frame, e')"
  shows "frame = PutUint64 (createAt e) @ PutUint64 (ttl e) @ [isNil e] @ valBytes e'"
    and "createAt e' = createAt e" and "ttl e' = ttl e" and "isNil e' = isNil e"
    and "val e' = val e"
    and "valBytes e' =
           (if valBytes e = [] \<and> val e \<noteq> None
            then (case Marshal c (val e) of Inr bs \<Rightarrow> bs | Inl err \<Rightarrow> [])
            else valBytes e)"
  using assms
  by (auto simp: Serialize_def Let_def split: if_splits sum.splits error.splits)

lemma Serialize_no_marshal:
  "valBytes e \<noteq> [] \<or> val e = None \<Longrightarrow>
     Serialize c e = Inr (PutUint64 (createAt e) @ PutUint64 (ttl e) @ [isNil e] @ valBytes e, e)"
  by (auto simp: Serialize_def)

lemma Serialize_marshal:
  "valBytes e = [] \<Longrightarrow> val e \<noteq> None \<Longrightarrow> Marshal c (val e) = Inr bs \<Longrightarrow>
     Serialize c e =
       Inr (PutUint64 (createAt e) @ PutUint64 (ttl e) @ [isNil e] @ bs, e\<lparr>valBytes := bs\<rparr>)"
  by (auto simp: Serialize_def)

lemma Serialize_fails_iff:
  "Serialize c e = Inl err \<longleftrightarrow>
     valBytes e = [] \<and> val e \<noteq> None
     \<and> (\<exists>m. Marshal c (val e) = Inl (Err m) \<and> err = Err (''cachex: failed to marshal value: '' @ m))"
  by (auto simp: Serialize_def Let_def split: sum.splits error.splits)

lemma Serialize_layout:
  assumes s: "Serialize c e = Inr (frame, e')"
  shows "frame = PutUint64 (createAt e) @ PutUint64 (ttl e) @ [isNil e] @ valBytes e'
      \<and> length frame = 17 + length (valBytes e')
      \<and> (\<forall>i<8. frame ! i = ucast (drop_bit (8 * i) (createAt e))
              \<and> frame ! (8 + i) = ucast (drop_bit (8 * i) (ttl e)))
      \<and> frame ! 16 = isNil e
      \<and> drop 17 frame = valBytes e'
      \<and> valBytes e' =
           (if valBytes e = [] \<and> val e \<noteq> None
            then (case Marshal c (val e) of Inr bs \<Rightarrow> bs | Inl err \<Rightarrow> [])
            else valBytes e)"
proof -
  note f = Serialize_frame [OF s]
  have "length frame = 17 + length (valBytes e')"
    by (simp add: f(1) length_PutUint64)
  moreover have "frame ! i = ucast (drop_bit (8 * i) (createAt e))
      \<and> frame ! (8 + i) = ucast (drop_bit (8 * i) (ttl e))" if "i < 8" for i
    using that by (simp add: f(1) nth_append length_PutUint64 PutUint64_nth)
  moreover have "frame ! 16 = isNil e"
    by (simp add: f(1) nth_append length_PutUint64)
  moreover have "drop 17 frame = valBytes e'"
    by (simp add: f(1) length_PutUint64)
  ultimately show ?thesis using f(1) f(6) by blast
qed

text \<open>
  C5. \<open>Serialize\<close> returns a frame for every envelope, except that it returns the
  marshal error when it has to marshal the value (no payload bytes cached, \<open>val\<close> set)
  and \<open>Marshal\<close> fails. The frame is 8 bytes \<open>createAt\<close>, 8 bytes \<open>ttl\<close>, 1 byte \<open>isNil\<close>
  and the payload, 17 bytes and the payload in all, each number with its least
  significant byte first; the payload is the cached bytes or, with none cached, what
  the codec marshals. An input of fewer than 17 bytes parses to the null envelope.
\<close>

theorem Serialize_wire_format:
  fixes c :: "'v codec"
  shows "(Serialize c e = Inr (frame, e') \<longrightarrow>
      frame = PutUint64 (createAt e) @ PutUint64 (ttl e) @ [isNil e] @ valBytes e'
      \<and> length frame = 17 + length (valBytes e')
      \<and> (\<forall>i<8. frame ! i = ucast (drop_bit (8 * i) (createAt e))
              \<and> frame ! (8 + i) = ucast (drop_bit (8 * i) (ttl e)))
      \<and> frame ! 16 = isNil e
      \<and> drop 17 frame = valBytes e'
      \<and> valBytes e' =
           (if valBytes e = [] \<and> val e \<noteq> None
            then (case Marshal c (val e) of Inr bs \<Rightarrow> bs | Inl err \<Rightarrow> [])
            else valBytes e))
   \<and> (valBytes e \<noteq> [] \<or> val e = None \<longrightarrow>
        Serialize c e =
          Inr (PutUint64 (createAt e) @ PutUint64 (ttl e) @ [isNil e] @ valBytes e, e))
   \<and> (valBytes e = [] \<and> val e \<noteq> None \<and> Marshal c (val e) = Inr bs \<longrightarrow>
        Serialize c e =
          Inr (PutUint64 (createAt e) @ PutUint64 (ttl e) @ [isNil e] @ bs, e\<lparr>valBytes := bs\<rparr>))
   \<and> (Serialize c e = Inl err \<longleftrightarrow>
        valBytes e = [] \<and> val e \<noteq> None
        \<and> (\<exists>m. Marshal c (val e) = Inl (Err m)
                 \<and> err = Err (''cachex: failed to marshal value: '' @ m)))
   \<and> (length bytes < 17 \<longrightarrow> (deserializeEntry bytes :: 'v entry option) = None)"
proof -
  have "(deserializeEntry bytes :: 'v entry option) = None" if "length bytes < 17"
    using that by (simp add: deserializeEntry_def)
  then show ?thesis
    using Serialize_layout [of c e frame e'] Serialize_no_marshal [of e c]
      Serialize_marshal [of e c bs] Serialize_fails_iff [of c e err]
    by blast
qed

theorem Serialize_wire_format_witness:
  "Serialize rawString ex_entry =
     Inr (PutUint64 1000 @ PutUint64 5000000 @ [0] @ [104, 105], ex_entry\<lparr>valBytes := [104, 105]\<rparr>)
   \<and> length (PutUint64 1000 @ PutUint64 5000000 @ [0] @ [104, 105 :: byte]) = 19
   \<and> (PutUint64 1000 @ PutUint64 5000000 @ [0] @ [104, 105 :: byte]) ! 16 = 0
   \<and> Serialize rawString ov_entry = Inr (PutUint64 9223372036854775807 @ PutUint64 1000000 @ [0], ov_entry)
   \<and> length [1, 2, 3 :: byte] < 17
   \<and> (deserializeEntry [1, 2, 3] :: byte list entry option) = None"
proof -
  have m: "valBytes ex_entry = [] \<and> val ex_entry \<noteq> None
      \<and> Marshal rawString (val ex_entry) = Inr [104, 105]"
    by (simp add: rawString_def ex_entry_def)
  have n: "valBytes ov_entry \<noteq> [] \<or> val ov_entry = None"
    by (simp add: ov_entry_def)
  have l: "length [1, 2, 3 :: byte] < 17" by simp
  have s: "Serialize rawString ex_entry =
     Inr (PutUint64 1000 @ PutUint64 5000000 @ [0] @ [104, 105], ex_entry\<lparr>valBytes := [104, 105]\<rparr>)"
    using Serialize_wire_format [of rawString ex_entry _ _ "[104, 105]"] m
    by (simp add: ex_entry_def)
  have s2: "Serialize rawString ov_entry =
      Inr (PutUint64 9223372036854775807 @ PutUint64 1000000 @ [0], ov_entry)"
    using Serialize_wire_format [of rawString ov_entry] n by (simp add: ov_entry_def)
  show ?thesis
    using Serialize_wire_format [of rawString ex_entry
        "PutUint64 1000 @ PutUint64 5000000 @ [0] @ [104, 105]"
        "ex_entry\<lparr>valBytes := [104, 105]\<rparr>" _ _ "[1, 2, 3]"] s s2 l
    by (simp add: ex_entry_def length_PutUint64 nth_append)
qed

lemma Value_roundtrip_iff:
  fixes c :: "'v codec"
  assumes s: "Serialize c e = Inr (frame, e')"
  shows "Value c (deserializeEntry frame) = Value c (Some e)
     \<longleftrightarrow> IsNil e \<or> val e = None \<or> Unmarshal c (drop 17 frame) = Inr (val e)"
proof -
  note f = Serialize_frame [OF s]
  have p: "drop 17 frame = valBytes e'" using Serialize_layout [OF s] by blast
  have d: "(deserializeEntry frame :: 'v entry option) =
      Some \<lparr>createAt = createAt e, ttl = ttl e, valBytes = valBytes e', val = None, isNil = isNil e\<rparr>"
    unfolding f(1) by (simp add: deserializeEntry_frame)
  show ?thesis
  proof (cases "IsNil e")
    case True
    then show ?thesis by (simp add: d Value_def IsNil_def)
  next
    case nn: False
    show ?thesis
    proof (cases "val e")
      case None
      then have "valBytes e' = valBytes e" using f(6) by simp
      then show ?thesis using None nn by (simp add: d Value_def IsNil_def)
    next
      case (Some v)
      then show ?thesis using nn
        by (auto simp: d p Value_def IsNil_def split: sum.splits error.splits)
    qed
  qed
qed

lemma Unmarshal_payload:
  fixes c :: "'v codec"
  assumes s: "Serialize c e = Inr (frame, e')"
    and inv: "\<forall>v bs. Marshal c (Some v) = Inr bs \<longrightarrow> Unmarshal c bs = Inr (Some v)"
    and cached: "\<forall>v. val e = Some v \<and> valBytes e \<noteq> [] \<longrightarrow> Marshal c (Some v) = Inr (valBytes e)"
    and v: "val e = Some v"
  shows "Unmarshal c (drop 17 frame) = Inr (val e)"
proof -
  note f = Serialize_frame [OF s]
  have p: "drop 17 frame = valBytes e'" using Serialize_layout [OF s] by blast
  have m: "Marshal c (Some v) = Inr (valBytes e')"
  proof (cases "valBytes e = []")
    case True
    then show ?thesis using s v
      by (auto simp: Serialize_def Let_def split: sum.splits error.splits)
  next
    case False
    then show ?thesis using cached v f(6) by simp
  qed
  show ?thesis using inv m v p by simp
qed

text \<open>
  C4 as amended. When \<open>Serialize\<close> succeeds, with any codec, the frame parses to an
  envelope with the same \<open>createAt\<close>, \<open>ttl\<close> and \<open>isNil\<close>. Its \<open>Value\<close> is the \<open>Value\<close>
  of the original exactly when the original is a nil envelope, or holds no decoded
  value, or \<open>Unmarshal\<close> gives its value back from the payload of the frame; the last
  holds for a codec whose \<open>Unmarshal\<close> inverts its \<open>Marshal\<close> when the payload bytes
  cached in the envelope, if any, are those of its value.
\<close>

theorem Serialize_roundtrip:
  fixes c :: "'v codec"
  assumes "Serialize c e = Inr (frame, e')"
  shows "\<exists>d. deserializeEntry frame = Some d \<and> createAt d = createAt e \<and> ttl d = ttl e
           \<and> isNil d = isNil e
           \<and> (Value c (Some d) = Value c (Some e)
                \<longleftrightarrow> IsNil e \<or> val e = None \<or> Unmarshal c (drop 17 frame) = Inr (val e))
           \<and> ((\<forall>v bs. Marshal c (Some v) = Inr bs \<longrightarrow> Unmarshal c bs = Inr (Some v))
                \<and> (\<forall>v. val e = Some v \<and> valBytes e \<noteq> [] \<longrightarrow> Marshal c (Some v) = Inr (valBytes e))
                \<longrightarrow> Value c (Some d) = Value c (Some e))"
proof -
  note f = Serialize_frame [OF assms]
  have d: "(deserializeEntry frame :: 'v entry option) =
      Some \<lparr>createAt = createAt e, ttl = ttl e, valBytes = valBytes e', val = None, isNil = isNil e\<rparr>"
    unfolding f(1) by (simp add: deserializeEntry_frame)
  have i: "Value c (deserializeEntry frame) = Value c (Some e)
     \<longleftrightarrow> IsNil e \<or> val e = None \<or> Unmarshal c (drop 17 frame) = Inr (val e)"
    using assms by (rule Value_roundtrip_iff)
  have u: "Unmarshal c (drop 17 frame) = Inr (val e)"
    if "\<forall>v bs. Marshal c (Some v) = Inr bs \<longrightarrow> Unmarshal c bs = Inr (Some v)"
      and "\<forall>v. val e = Some v \<and> valBytes e \<noteq> [] \<longrightarrow> Marshal c (Some v) = Inr (valBytes e)"
      and "val e \<noteq> None"
    using Unmarshal_payload [OF assms that(1) that(2)] that(3) by auto
  show ?thesis
    using i u unfolding d by (intro exI conjI impI) (simp, simp, simp, simp, assumption, blast)
qed

theorem Serialize_roundtrip_witness:
  "\<exists>d. deserializeEntry (PutUint64 1000 @ PutUint64 5000000 @ [0] @ [104, 105]) = Some d
     \<and> createAt d = createAt ex_entry \<and> ttl d = ttl ex_entry \<and> isNil d = isNil ex_entry
     \<and> Value rawString (Some d) = Value rawString (Some ex_entry)"
proof -
  have s: "Serialize rawString ex_entry =
     Inr (PutUint64 1000 @ PutUint64 5000000 @ [0] @ [104, 105], ex_entry\<lparr>valBytes := [104, 105]\<rparr>)"
    by (simp add: Serialize_def rawString_def ex_entry_def)
  have i: "\<forall>v bs. Marshal rawString (Some v) = Inr bs \<longrightarrow> Unmarshal rawString bs = Inr (Some v)"
    by (simp add: rawString_def)
  have c: "\<forall>v. val ex_entry = Some v \<and> valBytes ex_entry \<noteq> [] \<longrightarrow>
      Marshal rawString (Some v) = Inr (valBytes ex_entry)"
    by (simp add: ex_entry_def)
  show ?thesis using Serialize_roundtrip [OF s] i c by blast
qed

text \<open>
  C4 as stated fails for a codec that loses information: \<open>Serialize\<close> succeeds, and the
  parsed frame has another \<open>Value\<close> than the original envelope. It also fails for an
  envelope whose cached payload bytes are not those of its value.
\<close>

theorem Serialize_roundtrip_counterexample:
  "Serialize lossyCodec lossy_entry = Inr (lossy_frame, lossy_entry\<lparr>valBytes := [1]\<rparr>)
   \<and> Value lossyCodec (deserializeEntry lossy_frame) = Ret (Some (1, 0), None)
   \<and> Value lossyCodec (Some lossy_entry) = Ret (Some (1, 2), None)
   \<and> Serialize rawString stale_entry = Inr (PutUint64 0 @ PutUint64 0 @ [0, 9], stale_entry)
   \<and> Value rawString (deserializeEntry (PutUint64 0 @ PutUint64 0 @ [0, 9])) = Ret (Some [9], None)
   \<and> Value rawString (Some stale_entry) = Ret (Some [1], None)"
  by (simp add: Serialize_def lossyCodec_def lossy_entry_def lossy_frame_def newEntry_def
      deserializeEntry_frame Value_def IsNil_def stale_entry_def rawString_def)

subsection \<open>Value\<close>

lemma Value_panics:
  "\<not> IsNil e \<Longrightarrow> val e = None \<Longrightarrow> Unmarshal c (valBytes e) = Inl (Err m) \<Longrightarrow>
     Value c (Some e) = Panics (UnmarshalPanic (Err (''cachex: failed to unmarshal value: '' @ m)))"
  by (simp add: Value_def)

lemma Value_no_error: "Value c eo = Ret (v, err) \<Longrightarrow> err = None"
  by (auto simp: Value_def split: option.splits if_splits sum.splits error.splits)

subsection \<open>Two-tier read\<close>

lemma getDelTTL_1:
  "getDelTTL w 1 st =
     (Ret (delTTL w + of_nat (rand_src st (rand_pos st) mod 1000) * Millisecond),
      st\<lparr>rand_pos := rand_pos st + 1\<rparr>)"
  by (simp add: getDelTTL_def Int63n_def)


lemma wrapper_get_val: "wrapper_get w cacher ck st = Some e \<Longrightarrow> val e = None"
  by (auto simp: wrapper_get_def deserializeEntry_def split: option.splits sum.splits if_splits)

lemma wrapper_get_store:
  "wrapper_get w cacher ck st =
     (case cacher of
        None \<Rightarrow> None
      | Some a \<Rightarrow>
          (case fault (stores st a) of
             Some err \<Rightarrow> None
           | None \<Rightarrow>
               (case kv (stores st a) ck of
                  None \<Rightarrow> None
                | Some (bs, t) \<Rightarrow> deserializeEntry bs)))"
  by (auto simp: wrapper_get_def cacher_Get_def split: option.splits sum.splits)

lemma wrapper_get_rand [simp]:
  "wrapper_get w cacher ck (st\<lparr>rand_pos := n\<rparr>) = wrapper_get w cacher ck st"
  by (cases cacher) (simp_all add: wrapper_get_def)

lemma wrapper_set_backfill:
  assumes "val e = None" and "fault (stores st a) = None"
  shows "wrapper_set w (Some a) ck (Some e) t st =
     (None, st\<lparr>stores := (stores st)
        (a := (stores st a)\<lparr>kv := (kv (stores st a))
           (ck \<mapsto> (PutUint64 (createAt e) @ PutUint64 (ttl e) @ [isNil e] @ valBytes e, t))\<rparr>)\<rparr>)"
  using assms by (simp add: wrapper_set_def Serialize_def cacher_Set_def)

lemma wrapper_set_nil_cacher: "wrapper_set w None ck v t st = (None, st)"
  by (simp add: wrapper_set_def)

lemma wrapper_set_stores_fault:
  "fault (stores st a) \<noteq> None \<Longrightarrow> snd (wrapper_set w (Some a) ck v t st) = st"
  by (auto simp: wrapper_set_def cacher_Set_def split: option.splits sum.splits prod.splits)

lemma wrapper_set_clock [simp]: "clock (snd (wrapper_set w cacher ck v t st)) = clock st"
  by (auto simp: wrapper_set_def cacher_Set_def split: option.splits sum.splits prod.splits)

lemma latest_cases:
  "latest None None = None"
  "latest (Some a) None = Some a"
  "latest None (Some b) = Some b"
  "latest (Some a) (Some b) = (if sint (createAt b) < sint (createAt a) then Some a else Some b)"
  by (simp_all add: latest_def CreateAt_def word_sless_alt)

lemma latest_None_iff: "latest e1 e2 = None \<longleftrightarrow> e1 = None \<and> e2 = None"
  by (auto simp: latest_def split: option.splits)


lemma wrapper_Get_fresh_L1:
  "notExpired (wrapper_get w (l1 w) ck st) (clock st) \<Longrightarrow>
     wrapper_Get w ck st = (Ret (wrapper_get w (l1 w) ck st), st)"
  by (simp add: wrapper_Get_def Let_def)

lemma wrapper_Get_fresh_L2:
  assumes "\<not> notExpired (wrapper_get w (l1 w) ck st) (clock st)"
    and "notExpired (wrapper_get w (l2 w) ck st) (clock st)"
  shows "wrapper_Get w ck st =
     (Ret (wrapper_get w (l2 w) ck st),
      snd (wrapper_set w (l1 w) ck (wrapper_get w (l2 w) ck st)
             (delTTL w + of_nat (rand_src st (rand_pos st) mod 1000) * Millisecond)
             (st\<lparr>rand_pos := rand_pos st + 1\<rparr>)))"
  using assms by (simp add: wrapper_Get_def Let_def getDelTTL_1 split: prod.splits)

lemma wrapper_Get_stale:
  assumes "\<not> notExpired (wrapper_get w (l1 w) ck st) (clock st)"
    and "\<not> notExpired (wrapper_get w (l2 w) ck st) (clock st)"
  shows "wrapper_Get w ck st =
     (Ret (latest (wrapper_get w (l1 w) ck st) (wrapper_get w (l2 w) ck st)), st)"
  using assms by (simp add: wrapper_Get_def Let_def)

lemma wrapper_Get_total:
  "\<exists>r st'. wrapper_Get w ck st = (Ret r, st') \<and> clock st' = clock st"
proof (cases "notExpired (wrapper_get w (l1 w) ck st) (clock st)")
  case True
  then show ?thesis using wrapper_Get_fresh_L1 by blast
next
  case f1: False
  show ?thesis
  proof (cases "notExpired (wrapper_get w (l2 w) ck st) (clock st)")
    case True
    show ?thesis unfolding wrapper_Get_fresh_L2 [OF f1 True] by simp
  next
    case False
    show ?thesis unfolding wrapper_Get_stale [OF f1 False] by simp
  qed
qed
lemma deserializeEntry_ex_frame: "deserializeEntry ex_frame = Some ex_parsed"
  by (simp add: ex_frame_def ex_parsed_def deserializeEntry_frame)

lemma entry_eq_parsed:
  fixes e :: "'v entry"
  shows "val e = None \<Longrightarrow>
     \<lparr>createAt = createAt e, ttl = ttl e, valBytes = valBytes e, val = None, isNil = isNil e\<rparr> = e"
  by (cases e) simp

text \<open>
  C7. \<open>Wrapper.Get\<close> returns the L1 envelope when it exists and is not expired.
  Otherwise, when the L2 envelope exists and is not expired, it returns the L2 envelope
  and back-fills L1 through \<open>set\<close> with the delete-TTL of level 1, \<open>delTTL\<close> plus a
  jitter below 1000 ms: an L1 that is configured and works then holds the frame of the
  L2 envelope with that TTL and reads back as the L2 envelope, and no other store
  changes. Otherwise it returns \<open>latest\<close> of the two, whether expired or not: null when
  both are null, the one that exists when only one does, and of two the one with the
  greater \<open>createAt\<close> (the L2 envelope on a tie); no store changes.
\<close>

theorem wrapper_Get_reconciles:
  fixes w :: "'v wrapper"
  shows "(notExpired (wrapper_get w (l1 w) ck st) (clock st) \<longrightarrow>
            wrapper_Get w ck st = (Ret (wrapper_get w (l1 w) ck st), st))
   \<and> (\<not> notExpired (wrapper_get w (l1 w) ck st) (clock st)
        \<and> notExpired (wrapper_get w (l2 w) ck st) (clock st) \<longrightarrow>
          fst (wrapper_Get w ck st) = Ret (wrapper_get w (l2 w) ck st)
          \<and> getDelTTL w 1 st =
               (Ret (delTTL w + of_nat (rand_src st (rand_pos st) mod 1000) * Millisecond),
                st\<lparr>rand_pos := rand_pos st + 1\<rparr>)
          \<and> snd (wrapper_Get w ck st) =
               snd (wrapper_set w (l1 w) ck (wrapper_get w (l2 w) ck st)
                      (delTTL w + of_nat (rand_src st (rand_pos st) mod 1000) * Millisecond)
                      (st\<lparr>rand_pos := rand_pos st + 1\<rparr>))
          \<and> (\<forall>a e2. l1 w = Some a \<and> fault (stores st a) = None
                       \<and> wrapper_get w (l2 w) ck st = Some e2 \<longrightarrow>
                 stores (snd (wrapper_Get w ck st)) =
                   (stores st)(a := (stores st a)\<lparr>kv := (kv (stores st a))
                      (ck \<mapsto> (PutUint64 (createAt e2) @ PutUint64 (ttl e2) @ [isNil e2] @ valBytes e2,
                              delTTL w + of_nat (rand_src st (rand_pos st) mod 1000) * Millisecond))\<rparr>)
                 \<and> wrapper_get w (l1 w) ck (snd (wrapper_Get w ck st)) = Some e2)
          \<and> (l1 w = None \<or> (\<exists>a. l1 w = Some a \<and> fault (stores st a) \<noteq> None) \<longrightarrow>
                 stores (snd (wrapper_Get w ck st)) = stores st))
   \<and> (\<not> notExpired (wrapper_get w (l1 w) ck st) (clock st)
        \<and> \<not> notExpired (wrapper_get w (l2 w) ck st) (clock st) \<longrightarrow>
          wrapper_Get w ck st =
            (Ret (latest (wrapper_get w (l1 w) ck st) (wrapper_get w (l2 w) ck st)), st))
   \<and> latest None None = (None :: 'v entry option)
   \<and> latest (Some x) None = Some x
   \<and> latest None (Some y) = Some y
   \<and> latest (Some x) (Some y) = (if sint (createAt y) < sint (createAt x) then Some x else Some y)"
proof -
  let ?f1 = "wrapper_get w (l1 w) ck st" and ?f2 = "wrapper_get w (l2 w) ck st"
  let ?t = "delTTL w + of_nat (rand_src st (rand_pos st) mod 1000) * Millisecond"
  let ?st1 = "st\<lparr>rand_pos := rand_pos st + 1\<rparr>"
  have A: "wrapper_Get w ck st = (Ret ?f1, st)" if "notExpired ?f1 (clock st)"
    using that by (rule wrapper_Get_fresh_L1)
  have C: "wrapper_Get w ck st = (Ret (latest ?f1 ?f2), st)"
    if "\<not> notExpired ?f1 (clock st)" "\<not> notExpired ?f2 (clock st)"
    using that by (rule wrapper_Get_stale)
  { assume n1: "\<not> notExpired ?f1 (clock st)" and n2: "notExpired ?f2 (clock st)"
    note G = wrapper_Get_fresh_L2 [OF n1 n2]
    have b1: "fst (wrapper_Get w ck st) = Ret ?f2" by (simp add: G)
    have b2: "snd (wrapper_Get w ck st) = snd (wrapper_set w (l1 w) ck ?f2 ?t ?st1)"
      by (simp add: G)
    have b3: "stores (snd (wrapper_Get w ck st)) =
           (stores st)(a := (stores st a)\<lparr>kv := (kv (stores st a))
              (ck \<mapsto> (PutUint64 (createAt e2) @ PutUint64 (ttl e2) @ [isNil e2] @ valBytes e2, ?t))\<rparr>)
         \<and> wrapper_get w (l1 w) ck (snd (wrapper_Get w ck st)) = Some e2"
      if h: "l1 w = Some a \<and> fault (stores st a) = None \<and> ?f2 = Some e2" for a e2
    proof -
      have v: "val e2 = None" using h wrapper_get_val by blast
      have f: "fault (stores ?st1 a) = None" using h by simp
      have s: "snd (wrapper_Get w ck st) =
          ?st1\<lparr>stores := (stores ?st1)(a := (stores ?st1 a)\<lparr>kv := (kv (stores ?st1 a))
             (ck \<mapsto> (PutUint64 (createAt e2) @ PutUint64 (ttl e2) @ [isNil e2] @ valBytes e2, ?t))\<rparr>)\<rparr>"
        unfolding b2 using h wrapper_set_backfill [OF v f, of w ck ?t] by simp
      show ?thesis using h v
        by (simp add: s wrapper_get_store deserializeEntry_frame entry_eq_parsed)
    qed
    have b4: "stores (snd (wrapper_Get w ck st)) = stores st"
      if h: "l1 w = None \<or> (\<exists>a. l1 w = Some a \<and> fault (stores st a) \<noteq> None)"
    proof (cases "l1 w")
      case None
      then show ?thesis by (simp add: b2 wrapper_set_nil_cacher)
    next
      case (Some a)
      then have "fault (stores ?st1 a) \<noteq> None" using h by auto
      then show ?thesis using Some by (simp add: b2 wrapper_set_stores_fault)
    qed
    note b1 b2 b3 b4 }
  note B = this
  have P1: "notExpired ?f1 (clock st) \<longrightarrow> wrapper_Get w ck st = (Ret ?f1, st)"
    using A by blast
  have P2: "\<not> notExpired ?f1 (clock st) \<and> notExpired ?f2 (clock st) \<longrightarrow>
          fst (wrapper_Get w ck st) = Ret ?f2
          \<and> getDelTTL w 1 st = (Ret ?t, ?st1)
          \<and> snd (wrapper_Get w ck st) = snd (wrapper_set w (l1 w) ck ?f2 ?t ?st1)
          \<and> (\<forall>a e2. l1 w = Some a \<and> fault (stores st a) = None \<and> ?f2 = Some e2 \<longrightarrow>
                 stores (snd (wrapper_Get w ck st)) =
                   (stores st)(a := (stores st a)\<lparr>kv := (kv (stores st a))
                      (ck \<mapsto> (PutUint64 (createAt e2) @ PutUint64 (ttl e2) @ [isNil e2] @ valBytes e2, ?t))\<rparr>)
                 \<and> wrapper_get w (l1 w) ck (snd (wrapper_Get w ck st)) = Some e2)
          \<and> (l1 w = None \<or> (\<exists>a. l1 w = Some a \<and> fault (stores st a) \<noteq> None) \<longrightarrow>
                 stores (snd (wrapper_Get w ck st)) = stores st)"
    using B getDelTTL_1 [of w st] by blast
  have P3: "\<not> notExpired ?f1 (clock st) \<and> \<not> notExpired ?f2 (clock st) \<longrightarrow>
          wrapper_Get w ck st = (Ret (latest ?f1 ?f2), st)"
    using C by blast
  show ?thesis
    by (intro conjI) (rule P1, rule P2, rule P3, simp_all add: latest_cases)
qed
lemma notExpired_ex_parsed: "notExpired (Some ex_parsed) 1000"
  by (simp add: notExpired_def IsExpired_def ex_parsed_def Milliseconds_def signed_divide_int_def
      word_sle_eq word_sless_alt)

lemma ex_world_reads:
  "l1 ex_wrapper = Some 0" "l2 ex_wrapper = Some 1"
  "wrapper_get ex_wrapper (Some 0) ''default:k'' ex_world = None"
  "wrapper_get ex_wrapper (Some (Suc 0)) ''default:k'' ex_world = Some ex_parsed"
  "wrapper_get ex_wrapper (Some 0) ''default:k'' ex_world_l1 = Some ex_parsed"
  "wrapper_get ex_wrapper (Some 0) ''default:x'' ex_world = None"
  "wrapper_get ex_wrapper (Some (Suc 0)) ''default:x'' ex_world = None"
  by (simp_all add: wrapper_get_store ex_wrapper_def newWrapper_def ex_world_def ex_world_l1_def
      deserializeEntry_ex_frame)

lemma wrapper_Get_ex_world_fst:
  "fst (wrapper_Get ex_wrapper ''default:k'' ex_world) = Ret (Some ex_parsed)"
proof -
  have n1: "\<not> notExpired (wrapper_get ex_wrapper (l1 ex_wrapper) ''default:k'' ex_world) (clock ex_world)"
    by (simp add: ex_world_reads notExpired_def)
  have c: "clock ex_world = 1000" by (simp add: ex_world_def)
  have n2: "notExpired (wrapper_get ex_wrapper (l2 ex_wrapper) ''default:k'' ex_world) (clock ex_world)"
    by (simp add: ex_world_reads c notExpired_ex_parsed)
  show ?thesis
    unfolding wrapper_Get_fresh_L2 [OF n1 n2] by (simp add: ex_world_reads)
qed

theorem wrapper_Get_reconciles_witness:
  "wrapper_Get ex_wrapper ''default:k'' ex_world_l1 = (Ret (Some ex_parsed), ex_world_l1)
   \<and> fst (wrapper_Get ex_wrapper ''default:k'' ex_world) = Ret (Some ex_parsed)
   \<and> kv (stores (snd (wrapper_Get ex_wrapper ''default:k'' ex_world)) 0) ''default:k''
        = Some (ex_frame, 60007000000)
   \<and> wrapper_get ex_wrapper (l1 ex_wrapper) ''default:k''
        (snd (wrapper_Get ex_wrapper ''default:k'' ex_world)) = Some ex_parsed
   \<and> wrapper_Get ex_wrapper ''default:x'' ex_world = (Ret None, ex_world)"
proof -
  have c: "clock ex_world = 1000" "clock ex_world_l1 = 1000"
    by (simp_all add: ex_world_def ex_world_l1_def)
  have n: "\<not> notExpired (None :: byte list entry option) 1000" by (simp add: notExpired_def)
  have l: "fault (stores ex_world 0) = None"
    by (simp add: ex_world_def)
  have 1: "wrapper_Get ex_wrapper ''default:k'' ex_world_l1 = (Ret (Some ex_parsed), ex_world_l1)"
    using wrapper_Get_reconciles [of ex_wrapper "''default:k''" ex_world_l1 ex_parsed ex_parsed]
    by (simp add: ex_world_reads c notExpired_ex_parsed)
  have 3: "wrapper_Get ex_wrapper ''default:x'' ex_world = (Ret None, ex_world)"
    using wrapper_Get_reconciles [of ex_wrapper "''default:x''" ex_world ex_parsed ex_parsed]
    by (simp add: ex_world_reads c n latest_cases)
  have h: "\<not> notExpired (wrapper_get ex_wrapper (l1 ex_wrapper) ''default:k'' ex_world) (clock ex_world)
      \<and> notExpired (wrapper_get ex_wrapper (l2 ex_wrapper) ''default:k'' ex_world) (clock ex_world)"
    by (simp add: ex_world_reads c n notExpired_ex_parsed)
  have q: "l1 ex_wrapper = Some 0 \<and> fault (stores ex_world 0) = None
      \<and> wrapper_get ex_wrapper (l2 ex_wrapper) ''default:k'' ex_world = Some ex_parsed"
    by (simp add: ex_world_reads l)
  have 2: "fst (wrapper_Get ex_wrapper ''default:k'' ex_world)
       = Ret (wrapper_get ex_wrapper (l2 ex_wrapper) ''default:k'' ex_world)
     \<and> stores (snd (wrapper_Get ex_wrapper ''default:k'' ex_world)) =
         (stores ex_world)(0 := (stores ex_world 0)\<lparr>kv := (kv (stores ex_world 0))
            (''default:k'' \<mapsto> (PutUint64 (createAt ex_parsed) @ PutUint64 (ttl ex_parsed)
                @ [isNil ex_parsed] @ valBytes ex_parsed,
              delTTL ex_wrapper + of_nat (rand_src ex_world (rand_pos ex_world) mod 1000) * Millisecond))\<rparr>)
     \<and> wrapper_get ex_wrapper (l1 ex_wrapper) ''default:k''
          (snd (wrapper_Get ex_wrapper ''default:k'' ex_world)) = Some ex_parsed"
    using wrapper_Get_reconciles [of ex_wrapper "''default:k''" ex_world ex_parsed ex_parsed] h q
    by blast
  have t: "delTTL ex_wrapper + of_nat (rand_src ex_world (rand_pos ex_world) mod 1000) * Millisecond
      = 60007000000"
    by (simp add: ex_wrapper_def newWrapper_def ex_world_def Millisecond_def)
  have f: "PutUint64 (createAt ex_parsed) @ PutUint64 (ttl ex_parsed)
                @ [isNil ex_parsed] @ valBytes ex_parsed = ex_frame"
    by (simp add: ex_parsed_def ex_frame_def)
  show ?thesis using 1 2 3 by (simp add: t ex_world_reads ex_parsed_def ex_frame_def)
qed
subsection \<open>Facade: point reads\<close>

lemma strategies_distinct:
  "SourceStrategyCacheFirst \<noteq> SourceStrategySourceFirst"
  "SourceStrategyCacheFirst \<noteq> SourceStrategyCacheOnly"
  "SourceStrategyCacheFirst \<noteq> SourceStrategySourceOnly"
  "SourceStrategyCacheFirst \<noteq> SourceStrategyExpiredBackup"
  "SourceStrategySourceFirst \<noteq> SourceStrategyCacheOnly"
  "SourceStrategySourceFirst \<noteq> SourceStrategySourceOnly"
  "SourceStrategySourceFirst \<noteq> SourceStrategyExpiredBackup"
  "SourceStrategyCacheOnly \<noteq> SourceStrategySourceOnly"
  "SourceStrategyCacheOnly \<noteq> SourceStrategyExpiredBackup"
  "SourceStrategySourceOnly \<noteq> SourceStrategyExpiredBackup"
  by (simp_all add: SourceStrategyCacheFirst_def SourceStrategySourceFirst_def
      SourceStrategyCacheOnly_def SourceStrategySourceOnly_def SourceStrategyExpiredBackup_def)

lemma Get_dispatch:
  "ss c = SourceStrategyCacheFirst \<Longrightarrow> Get c k st = ssCacheFirstGet c k st"
  "ss c = SourceStrategySourceFirst \<Longrightarrow> Get c k st = ssSourceFirstGet c k st"
  "ss c = SourceStrategyCacheOnly \<Longrightarrow> Get c k st = ssCacheOnlyGet c k st"
  "ss c = SourceStrategySourceOnly \<Longrightarrow> Get c k st = ssSourceOnlyGet c k st"
  "ss c = SourceStrategyExpiredBackup \<Longrightarrow> Get c k st = ssExpiredBackupGet c k st"
  using strategies_distinct by (simp_all add: Get_def)

lemma cache_Get_Some: "cache c = Some w \<Longrightarrow> cache_Get c ck st = wrapper_Get w ck st"
  by (simp add: cache_Get_def)

lemma key_loaders [simp]: "key (c\<lparr>loaderFn := lf, mLoaderFn := mf\<rparr>) k = key c k"
  by (simp add: key_def)


lemma cached_fresh_hit:
  assumes g: "cache_Get c (key c k) st = (Ret fromCache, st1)"
    and f: "notExpired fromCache (clock st1)"
  shows "ssCacheFirstGet c k st = (Value (c_codec c) fromCache, st1)"
    and "ssCacheOnlyGet c k st = (Value (c_codec c) fromCache, st1)"
    and "ssExpiredBackupGet c k st = (Value (c_codec c) fromCache, st1)"
  using g f by (simp_all add: ssCacheFirstGet_def ssCacheOnlyGet_def ssExpiredBackupGet_def)





lemma Value_ex_parsed: "Value rawString (Some ex_parsed) = Ret (Some [104, 105], None)"
  by (simp add: Value_def IsNil_def ex_parsed_def rawString_def)


subsection \<open>Facade: writes, batch reads and clones\<close>

text \<open>
  C8. \<open>MSet\<close> with key and value lists of different lengths returns the length-mismatch
  error and leaves the world, with every store, as it was.
\<close>

theorem MSet_length_mismatch:
  "length ks \<noteq> length values \<Longrightarrow>
     MSet c ks values st = (Ret (Some (Err ''keys values length not equal'')), st)"
  by (simp add: MSet_def)

theorem MSet_length_mismatch_witness:
  "length [''a'', ''b''] \<noteq> length [Some [118 :: byte]]
   \<and> MSet ex_cachex [''a'', ''b''] [Some [118]] ex_world
        = (Ret (Some (Err ''keys values length not equal'')), ex_world)"
  using MSet_length_mismatch [of "[''a'', ''b'']" "[Some [118]]" ex_cachex ex_world] by simp

lemma mLoad_each_cong:
  assumes "namespace c' = namespace c" "genKeyFn c' = genKeyFn c" "expireTTL c' = expireTTL c"
  shows "mLoad_each c' f now ks res = mLoad_each c f now ks res"
  using assms
  by (induction ks arbitrary: res) (simp_all add: load_single_def key_def split: sum.splits)

lemma mLoad_cong:
  assumes "namespace c' = namespace c" "genKeyFn c' = genKeyFn c" "expireTTL c' = expireTTL c"
    and "loaderFn c' = loaderFn c" "mLoaderFn c' = mLoaderFn c" "clock st' = clock st"
  shows "mLoad c' ks st' = mLoad c ks st"
proof -
  have k: "key c' = key c" by (rule ext) (simp add: key_def assms)
  show ?thesis
    unfolding mLoad_def k assms(3-6) mLoad_each_cong [OF assms(1-3)] by (rule refl)
qed

lemma packBatchRes_cong:
  assumes "namespace c' = namespace c" "genKeyFn c' = genKeyFn c" "c_codec c' = c_codec c"
  shows "packBatchRes c' ks m = packBatchRes c ks m"
proof -
  have k: "key c' = key c" by (rule ext) (simp add: key_def assms)
  show ?thesis
  proof (induction ks)
    case Nil
    show ?case by simp
  next
    case (Cons x xs)
    show ?case unfolding packBatchRes.simps k assms(3) Cons.IH by (rule refl)
  qed
qed

lemma ssSourceOnlyMGet_cong:
  assumes "namespace c' = namespace c" "genKeyFn c' = genKeyFn c" "expireTTL c' = expireTTL c"
    and "loaderFn c' = loaderFn c" "mLoaderFn c' = mLoaderFn c" "c_codec c' = c_codec c"
    and "clock st' = clock st"
  shows "ssSourceOnlyMGet c' ks st' = (fst (ssSourceOnlyMGet c ks st), st')"
proof -
  have p: "packBatchRes c' ks m = packBatchRes c ks m" for m
    by (rule packBatchRes_cong [OF assms(1,2,6)])
  show ?thesis
    unfolding ssSourceOnlyMGet_def mLoad_cong [OF assms(1-5) assms(7)] p
    by (simp add: packed_def split: sum.splits outcome.splits)
qed

lemma MGet_dispatch:
  "ss c = SourceStrategySourceFirst \<Longrightarrow> MGet c ks st = ssSourceOnlyMGet c ks st"
  "ss c = SourceStrategySourceOnly \<Longrightarrow> MGet c ks st = ssSourceOnlyMGet c ks st"
  "ss c = SourceStrategyCacheFirst \<Longrightarrow> MGet c ks st = ssCacheFirstMGet c ks st"
  "ss c = SourceStrategyCacheOnly \<Longrightarrow> MGet c ks st = ssCacheOnlyMGet c ks st"
  "ss c = SourceStrategyExpiredBackup \<Longrightarrow> MGet c ks st = ssExpiredBackupMGet c ks st"
  using strategies_distinct by (simp_all add: MGet_def)

text \<open>
  C9. \<open>MGet\<close> under \<open>SourceFirst\<close> is \<open>MGet\<close> under \<open>SourceOnly\<close>: both load all the
  keys with \<open>mLoad\<close> and pack the result, or return the load error; the world is left
  as it was, and neither the stores nor the wrapper are read: with other stores and
  another wrapper, or none, the result is the same.
\<close>

theorem MGet_SourceFirst_is_SourceOnly:
  "MGet (c\<lparr>ss := SourceStrategySourceFirst\<rparr>) ks st = MGet (c\<lparr>ss := SourceStrategySourceOnly\<rparr>) ks st
   \<and> MGet (c\<lparr>ss := SourceStrategySourceFirst\<rparr>) ks st =
       (case mLoad c ks st of
          Inl err \<Rightarrow> (Ret ([], Some err), st)
        | Inr fromSource \<Rightarrow> packed (packBatchRes c ks fromSource) st)
   \<and> snd (MGet (c\<lparr>ss := SourceStrategySourceFirst\<rparr>) ks st) = st
   \<and> MGet (c\<lparr>ss := SourceStrategySourceFirst, cache := w'\<rparr>) ks (st\<lparr>stores := s'\<rparr>) =
       (fst (MGet (c\<lparr>ss := SourceStrategySourceFirst\<rparr>) ks st), st\<lparr>stores := s'\<rparr>)"
proof -
  have e: "snd (ssSourceOnlyMGet c ks st) = st"
    by (simp add: ssSourceOnlyMGet_def packed_def split: sum.splits outcome.splits)
  then have c0: "(fst (ssSourceOnlyMGet c ks st), st) = ssSourceOnlyMGet c ks st"
    by (metis prod.collapse)
  have "MGet (c\<lparr>ss := SourceStrategySourceFirst\<rparr>) ks st = (fst (ssSourceOnlyMGet c ks st), st)"
    using ssSourceOnlyMGet_cong [of "c\<lparr>ss := SourceStrategySourceFirst\<rparr>" c st st ks]
    by (simp add: MGet_dispatch)
  then have a: "MGet (c\<lparr>ss := SourceStrategySourceFirst\<rparr>) ks st = ssSourceOnlyMGet c ks st"
    using c0 by simp
  have "MGet (c\<lparr>ss := SourceStrategySourceOnly\<rparr>) ks st = (fst (ssSourceOnlyMGet c ks st), st)"
    using ssSourceOnlyMGet_cong [of "c\<lparr>ss := SourceStrategySourceOnly\<rparr>" c st st ks]
    by (simp add: MGet_dispatch)
  then have b: "MGet (c\<lparr>ss := SourceStrategySourceOnly\<rparr>) ks st = ssSourceOnlyMGet c ks st"
    using c0 by simp
  have d: "ssSourceOnlyMGet c ks st =
       (case mLoad c ks st of
          Inl err \<Rightarrow> (Ret ([], Some err), st)
        | Inr fromSource \<Rightarrow> packed (packBatchRes c ks fromSource) st)"
    by (simp add: ssSourceOnlyMGet_def)
  have f: "MGet (c\<lparr>ss := SourceStrategySourceFirst, cache := w'\<rparr>) ks (st\<lparr>stores := s'\<rparr>) =
       (fst (ssSourceOnlyMGet c ks st), st\<lparr>stores := s'\<rparr>)"
    using ssSourceOnlyMGet_cong [of "c\<lparr>ss := SourceStrategySourceFirst, cache := w'\<rparr>" c
        "st\<lparr>stores := s'\<rparr>" st ks]
    by (simp add: MGet_dispatch)
  show ?thesis unfolding a b f using d e by simp
qed

theorem MGet_SourceFirst_is_SourceOnly_witness:
  "MGet (ex_cachex\<lparr>mLoaderFn := Some ones_loader, ss := SourceStrategySourceFirst\<rparr>) [''a'', ''b''] ex_world
     = (Ret ([Some [1], Some [1]], None), ex_world)
   \<and> MGet (ex_cachex\<lparr>mLoaderFn := Some ones_loader, ss := SourceStrategySourceOnly\<rparr>) [''a'', ''b''] ex_world
     = (Ret ([Some [1], Some [1]], None), ex_world)
   \<and> MGet (ex_cachex\<lparr>ss := SourceStrategySourceFirst\<rparr>) [''a''] ex_world
     = (Ret ([], Some (Err ''loader not set'')), ex_world)"
proof -
  have m: "mLoad (ex_cachex\<lparr>mLoaderFn := Some ones_loader\<rparr>) [''a'', ''b''] ex_world =
      Inr [(''default:a'', Some (newEntry (Some [1]) 0 1000)),
           (''default:b'', Some (newEntry (Some [1]) 0 1000))]"
    by (simp add: mLoad_def ex_cachex_def ones_loader_def key_def ex_world_def)
  have p: "packBatchRes (ex_cachex\<lparr>mLoaderFn := Some ones_loader\<rparr>) [''a'', ''b'']
       [(''default:a'', Some (newEntry (Some [1]) 0 1000)),
        (''default:b'', Some (newEntry (Some [1]) 0 1000))] = Ret [Some [1], Some [1]]"
    by (simp add: ex_cachex_def key_def lookup_def Value_def IsNil_def newEntry_def)
  have n: "mLoad ex_cachex [''a''] ex_world = Inl (Err ''loader not set'')"
    by (simp add: mLoad_def ex_cachex_def)
  note T1 = MGet_SourceFirst_is_SourceOnly [of "ex_cachex\<lparr>mLoaderFn := Some ones_loader\<rparr>"
        "[''a'', ''b'']" ex_world None "stores ex_world"]
  note T2 = MGet_SourceFirst_is_SourceOnly [of ex_cachex "[''a'']" ex_world None "stores ex_world"]
  have 1: "MGet (ex_cachex\<lparr>mLoaderFn := Some ones_loader, ss := SourceStrategySourceFirst\<rparr>)
      [''a'', ''b''] ex_world = (Ret ([Some [1], Some [1]], None), ex_world)"
  proof -
    have "MGet (ex_cachex\<lparr>mLoaderFn := Some ones_loader, ss := SourceStrategySourceFirst\<rparr>)
        [''a'', ''b''] ex_world =
       (case mLoad (ex_cachex\<lparr>mLoaderFn := Some ones_loader\<rparr>) [''a'', ''b''] ex_world of
          Inl err \<Rightarrow> (Ret ([], Some err), ex_world)
        | Inr fromSource \<Rightarrow>
            packed (packBatchRes (ex_cachex\<lparr>mLoaderFn := Some ones_loader\<rparr>) [''a'', ''b''] fromSource)
              ex_world)"
      by (rule T1 [THEN conjunct2, THEN conjunct1])
    also have "\<dots> = (Ret ([Some [1], Some [1]], None), ex_world)"
      unfolding m by (simp only: sum.case p packed_def outcome.case)
    finally show ?thesis .
  qed
  have 2: "MGet (ex_cachex\<lparr>mLoaderFn := Some ones_loader, ss := SourceStrategySourceOnly\<rparr>)
      [''a'', ''b''] ex_world = (Ret ([Some [1], Some [1]], None), ex_world)"
    unfolding T1 [THEN conjunct1, symmetric] by (rule 1)
  have 3: "MGet (ex_cachex\<lparr>ss := SourceStrategySourceFirst\<rparr>) [''a''] ex_world
     = (Ret ([], Some (Err ''loader not set'')), ex_world)"
  proof -
    have "MGet (ex_cachex\<lparr>ss := SourceStrategySourceFirst\<rparr>) [''a''] ex_world =
       (case mLoad ex_cachex [''a''] ex_world of
          Inl err \<Rightarrow> (Ret ([], Some err), ex_world)
        | Inr fromSource \<Rightarrow> packed (packBatchRes ex_cachex [''a''] fromSource) ex_world)"
      by (rule T2 [THEN conjunct2, THEN conjunct1])
    also have "\<dots> = (Ret ([], Some (Err ''loader not set'')), ex_world)"
      unfolding n by (simp only: sum.case)
    finally show ?thesis .
  qed
  show ?thesis using 1 2 3 by simp
qed
lemma Build_ex_builder: "Build ex_builder = Inr ex_cachex"
  by (simp add: Build_def ex_builder_def ex_cachex_def ex_wrapper_def newBuilder_def
      WithCacheNil_def WithDelTTL_def WithL1_def WithL2_def WithGenKeyFn_def)


text \<open>
  C2, as the code has it. The clone made by \<open>WithSourceStrategy\<close> keeps the namespace,
  the codec, the TTL, the key function, both loaders and the negative-caching flag, and
  takes the new strategy, but its \<open>cache\<close> pointer is nil, while a built facade has a
  wrapper: every operation of the clone that goes to the cache panics on the nil
  pointer and touches no store.
\<close>

theorem WithSourceStrategy_drops_cache:
  "cache (WithSourceStrategy c s) = None
   \<and> Build ex_builder = Inr ex_cachex \<and> cache ex_cachex = Some ex_wrapper
   \<and> cache (WithSourceStrategy ex_cachex SourceStrategyCacheOnly) = None
   \<and> loaderFn (WithSourceStrategy c s) = loaderFn c
   \<and> mLoaderFn (WithSourceStrategy c s) = mLoaderFn c
   \<and> namespace (WithSourceStrategy c s) = namespace c
   \<and> c_codec (WithSourceStrategy c s) = c_codec c
   \<and> expireTTL (WithSourceStrategy c s) = expireTTL c
   \<and> genKeyFn (WithSourceStrategy c s) = genKeyFn c
   \<and> cacheNil (WithSourceStrategy c s) = cacheNil c
   \<and> ss (WithSourceStrategy c s) = s
   \<and> Get (WithSourceStrategy c SourceStrategyCacheFirst) k st = (Panics NilPointer, st)
   \<and> Get (WithSourceStrategy c SourceStrategyCacheOnly) k st = (Panics NilPointer, st)
   \<and> Get (WithSourceStrategy c SourceStrategyExpiredBackup) k st = (Panics NilPointer, st)
   \<and> MGet (WithSourceStrategy c SourceStrategyCacheFirst) ks st = (Panics NilPointer, st)
   \<and> MGet (WithSourceStrategy c SourceStrategyCacheOnly) ks st = (Panics NilPointer, st)
   \<and> MGet (WithSourceStrategy c SourceStrategyExpiredBackup) ks st = (Panics NilPointer, st)
   \<and> Set_op (WithSourceStrategy c s) k (Some v) st = (Panics NilPointer, st)
   \<and> MSet (WithSourceStrategy c s) [k] [v'] st = (Panics NilPointer, st)
   \<and> Del (WithSourceStrategy c s) k st = (Panics NilPointer, st)
   \<and> MDel (WithSourceStrategy c s) ks st = (Panics NilPointer, st)
   \<and> Get (WithSourceStrategy ex_cachex SourceStrategyCacheOnly) ''k'' ex_world
        = (Panics NilPointer, ex_world)
   \<and> fst (Get (ex_cachex\<lparr>ss := SourceStrategyCacheOnly\<rparr>) ''k'' ex_world)
        = Ret (Some [104, 105], None)"
proof -
  have n: "cache (WithSourceStrategy c s) = None" for c :: "('x, 'y) cachex" and s
    by (simp add: WithSourceStrategy_def clone_def)
  have s: "ss (WithSourceStrategy c s) = s" for c :: "('x, 'y) cachex" and s
    by (simp add: WithSourceStrategy_def clone_def)
  have g: "Get (WithSourceStrategy c x) k st = (Panics NilPointer, st)"
    if "x = SourceStrategyCacheFirst \<or> x = SourceStrategyCacheOnly \<or> x = SourceStrategyExpiredBackup"
    for c :: "('x, 'y) cachex" and x k st
    using that s [of c x] n [of c x]
    by (auto simp: Get_dispatch ssCacheFirstGet_def ssCacheOnlyGet_def ssExpiredBackupGet_def
        cache_Get_def)
  have m: "MGet (WithSourceStrategy c x) ks st = (Panics NilPointer, st)"
    if "x = SourceStrategyCacheFirst \<or> x = SourceStrategyCacheOnly \<or> x = SourceStrategyExpiredBackup"
    for x
    using that s [of c x] n [of c x]
    by (auto simp: MGet_dispatch ssCacheFirstMGet_def ssCacheOnlyMGet_def ssExpiredBackupMGet_def
        cache_MGet_def)
  have w1: "Set_op (WithSourceStrategy c s) k (Some v) st = (Panics NilPointer, st)"
    using n [of c s] by (simp add: Set_op_def cachex_set_def cache_Set_def newEntry_def IsNil_def)
  have w2: "MSet (WithSourceStrategy c s) [k] [v'] st = (Panics NilPointer, st)"
    using n [of c s] by (simp add: MSet_def cachex_mSet_def cache_MSet_def)
  have w3: "Del (WithSourceStrategy c s) k st = (Panics NilPointer, st)"
    using n [of c s] by (simp add: Del_def cache_Delete_def)
  have w4: "MDel (WithSourceStrategy c s) ks st = (Panics NilPointer, st)"
    using n [of c s] by (simp add: MDel_def cache_MDelete_def)
  have f: "loaderFn (WithSourceStrategy c s) = loaderFn c
      \<and> mLoaderFn (WithSourceStrategy c s) = mLoaderFn c
      \<and> namespace (WithSourceStrategy c s) = namespace c
      \<and> c_codec (WithSourceStrategy c s) = c_codec c
      \<and> expireTTL (WithSourceStrategy c s) = expireTTL c
      \<and> genKeyFn (WithSourceStrategy c s) = genKeyFn c
      \<and> cacheNil (WithSourceStrategy c s) = cacheNil c"
    by (simp add: WithSourceStrategy_def clone_def)
  have e: "cache ex_cachex = Some ex_wrapper" by (simp add: ex_cachex_def)
  have o: "fst (Get (ex_cachex\<lparr>ss := SourceStrategyCacheOnly\<rparr>) ''k'' ex_world)
        = Ret (Some [104, 105], None)"
  proof -
    have k: "key (ex_cachex\<lparr>ss := SourceStrategyCacheOnly\<rparr>) ''k'' = ''default:k''"
      by (simp add: key_def ex_cachex_def)
    obtain st1 where w: "wrapper_Get ex_wrapper ''default:k'' ex_world = (Ret (Some ex_parsed), st1)"
      using wrapper_Get_ex_world_fst by (metis prod.collapse)
    have c1: "clock st1 = 1000" using wrapper_Get_total [of ex_wrapper "''default:k''" ex_world] w
      by (simp add: ex_world_def)
    have "cache_Get (ex_cachex\<lparr>ss := SourceStrategyCacheOnly\<rparr>)
        (key (ex_cachex\<lparr>ss := SourceStrategyCacheOnly\<rparr>) ''k'') ex_world = (Ret (Some ex_parsed), st1)"
      unfolding k using w by (simp add: cache_Get_def ex_cachex_def)
    from cached_fresh_hit(2) [OF this] show ?thesis
      using notExpired_ex_parsed c1
      by (simp add: Get_dispatch Value_ex_parsed ex_cachex_def)
  qed
  show ?thesis
    using n [of c s] n [of ex_cachex SourceStrategyCacheOnly] s [of c s] g [of _ c k st] m w1 w2 w3 w4 f e o
      g [of SourceStrategyCacheOnly ex_cachex "''k''" ex_world] Build_ex_builder
    by simp
qed
theorem WithSourceStrategy_drops_cache_witness:
  "cache (WithSourceStrategy ex_cachex SourceStrategySourceOnly) = None
   \<and> Set_op (WithSourceStrategy ex_cachex SourceStrategySourceOnly) ''k'' (Some [104]) ex_world
        = (Panics NilPointer, ex_world)
   \<and> Del (WithSourceStrategy ex_cachex SourceStrategySourceOnly) ''k'' ex_world
        = (Panics NilPointer, ex_world)"
  using WithSourceStrategy_drops_cache [of ex_cachex SourceStrategySourceOnly "''k''" ex_world "[]"
      "[104]" None]
  by simp

subsection \<open>Negative caching\<close>














lemma Get_panics_on_corrupt_L1:
  fixes cx :: "('k, 'v) cachex" and d :: "'v entry"
  assumes "cache cx = Some w"
    and "ss cx = SourceStrategyCacheFirst \<or> ss cx = SourceStrategyCacheOnly
           \<or> ss cx = SourceStrategyExpiredBackup"
    and "l1 w = Some a" and "fault (stores st a) = None"
    and "kv (stores st a) (key cx k) = Some (bs, t)"
    and "deserializeEntry bs = Some d" and "\<not> IsExpired d (clock st)" and "\<not> IsNil d"
    and "Unmarshal (c_codec cx) (valBytes d) = Inl (Err m)"
  shows "Get cx k st =
     (Panics (UnmarshalPanic (Err (''cachex: failed to unmarshal value: '' @ m))), st)"
proof -
  have r: "wrapper_get w (l1 w) (key cx k) st = Some d"
    using assms by (simp add: wrapper_get_store)
  then have v: "val d = None" by (rule wrapper_get_val)
  have f: "notExpired (wrapper_get w (l1 w) (key cx k) st) (clock st)"
    using assms r by (simp add: notExpired_def)
  have g: "cache_Get cx (key cx k) st = (Ret (Some d), st)"
    using assms(1) wrapper_Get_fresh_L1 [OF f] r by (simp add: cache_Get_def)
  have f': "notExpired (Some d) (clock st)" using f r by simp
  have p: "Value (c_codec cx) (Some d) =
      Panics (UnmarshalPanic (Err (''cachex: failed to unmarshal value: '' @ m)))"
    using assms v by (simp add: Value_panics)
  have "Get cx k st = (Value (c_codec cx) (Some d), st)"
    using assms(2) cached_fresh_hit [OF g f'] by (auto simp: Get_dispatch)
  then show ?thesis using p by simp
qed




text \<open>
  C10. \<open>Value\<close> of an envelope that is not nil-marked and holds no decoded value
  panics when \<open>Unmarshal\<close> fails on the payload; whenever \<open>Value\<close> returns, its error
  is nil; and a \<open>Get\<close> that reads the cache first panics when a working L1 holds, under
  the key, a frame that is not expired and not nil-marked and whose payload the codec
  cannot unmarshal, as it does for the facade \<open>lossy_cachex\<close> over a store that holds
  a frame without payload.
\<close>

theorem Value_panics_on_bad_payload:
  fixes c :: "'v codec" and cx :: "('k, 'v) cachex" and d :: "'v entry"
  shows "(\<not> IsNil e \<and> val e = None \<and> Unmarshal c (valBytes e) = Inl (Err m) \<longrightarrow>
            Value c (Some e) =
              Panics (UnmarshalPanic (Err (''cachex: failed to unmarshal value: '' @ m))))
   \<and> (Value c eo = Ret (v, err) \<longrightarrow> err = None)
   \<and> (cache cx = Some w
        \<and> (ss cx = SourceStrategyCacheFirst \<or> ss cx = SourceStrategyCacheOnly
             \<or> ss cx = SourceStrategyExpiredBackup)
        \<and> l1 w = Some a \<and> fault (stores st a) = None
        \<and> kv (stores st a) (key cx k) = Some (bs, t)
        \<and> deserializeEntry bs = Some d \<and> \<not> IsExpired d (clock st) \<and> \<not> IsNil d
        \<and> Unmarshal (c_codec cx) (valBytes d) = Inl (Err m') \<longrightarrow>
          Get cx k st =
            (Panics (UnmarshalPanic (Err (''cachex: failed to unmarshal value: '' @ m'))), st))
   \<and> Get lossy_cachex ''k'' corrupt_world =
        (Panics (UnmarshalPanic (Err ''cachex: failed to unmarshal value: unexpected end of input'')),
         corrupt_world)"
proof -
  have d: "(deserializeEntry corrupt_frame :: (nat \<times> nat) entry option) =
      Some \<lparr>createAt = 1000, ttl = 0, valBytes = [], val = None, isNil = 0\<rparr>"
    by (simp add: corrupt_frame_def deserializeEntry_frame)
  have x: "Get lossy_cachex ''k'' corrupt_world =
        (Panics (UnmarshalPanic (Err ''cachex: failed to unmarshal value: unexpected end of input'')),
         corrupt_world)"
    using Get_panics_on_corrupt_L1 [where cx = lossy_cachex
          and w = "newWrapper (Some 0) None 0 lossyCodec" and a = 0 and bs = corrupt_frame
          and t = 0 and st = corrupt_world and k = "''k''"
          and d = "\<lparr>createAt = 1000, ttl = 0, valBytes = [], val = None, isNil = 0\<rparr>"
          and m = "''unexpected end of input''"]
    by (simp add: d lossy_cachex_def newWrapper_def corrupt_world_def key_def IsExpired_def
          IsNil_def lossyCodec_def)
  show ?thesis
    using Value_panics [of e c m] Value_no_error [of c eo v err] x
      Get_panics_on_corrupt_L1 [of cx w a st k bs t d m']
    by blast
qed

theorem Value_panics_on_bad_payload_witness:
  "Value lossyCodec (Some \<lparr>createAt = 1000, ttl = 0, valBytes = [], val = None, isNil = 0\<rparr>) =
     Panics (UnmarshalPanic (Err ''cachex: failed to unmarshal value: unexpected end of input''))
   \<and> Get (lossy_cachex\<lparr>ss := SourceStrategyCacheOnly\<rparr>) ''k'' corrupt_world =
     (Panics (UnmarshalPanic (Err ''cachex: failed to unmarshal value: unexpected end of input'')),
      corrupt_world)"
proof -
  let ?d = "\<lparr>createAt = 1000, ttl = 0, valBytes = [], val = None, isNil = 0\<rparr> :: (nat \<times> nat) entry"
  let ?w = "newWrapper (Some 0) None 0 lossyCodec :: (nat \<times> nat) wrapper"
  let ?cx = "lossy_cachex\<lparr>ss := SourceStrategyCacheOnly\<rparr>"
  have d: "deserializeEntry corrupt_frame = Some ?d"
    by (simp add: corrupt_frame_def deserializeEntry_frame)
  have h1: "\<not> IsNil ?d \<and> val ?d = None
      \<and> Unmarshal lossyCodec (valBytes ?d) = Inl (Err ''unexpected end of input'')"
    by (simp add: IsNil_def lossyCodec_def)
  have h2: "cache ?cx = Some ?w
      \<and> (ss ?cx = SourceStrategyCacheFirst \<or> ss ?cx = SourceStrategyCacheOnly
           \<or> ss ?cx = SourceStrategyExpiredBackup)
      \<and> l1 ?w = Some 0 \<and> fault (stores corrupt_world 0) = None
      \<and> kv (stores corrupt_world 0) (key ?cx ''k'') = Some (corrupt_frame, 0)
      \<and> deserializeEntry corrupt_frame = Some ?d
      \<and> \<not> IsExpired ?d (clock corrupt_world) \<and> \<not> IsNil ?d
      \<and> Unmarshal (c_codec ?cx) (valBytes ?d) = Inl (Err ''unexpected end of input'')"
    by (simp add: d lossy_cachex_def newWrapper_def corrupt_world_def key_def IsExpired_def
        IsNil_def lossyCodec_def)
  show ?thesis
    using Value_panics_on_bad_payload [where cx = ?cx and w = ?w and a = 0 and st = corrupt_world
        and k = "''k''" and bs = corrupt_frame and t = 0 and d = ?d
        and m' = "''unexpected end of input''" and c = lossyCodec and eo = None and v = None
        and err = None and m = "''unexpected end of input''" and e = ?d] h1 h2
    by simp
qed

end
